theory Spec2Isabelle
  imports Complex_Main "HOL-Library.Sublist"
begin

unbundle bit_operations_syntax

section \<open>JavaScript strings\<close>

text \<open>
  A JavaScript string is modelled as a \<^typ>\<open>string\<close>: the list of its characters, each
  an 8-bit \<^typ>\<open>char\<close>.  ASCII text is represented exactly.  The only non-ASCII character
  that server.ts itself writes is the en dash of the ward names; it is written as the three
  bytes of its UTF-8 encoding (see \<open>en_dash\<close> below), which preserves equality and the
  substring relation between the strings of the program.

  \<open>toLowerCase\<close> maps the ASCII capitals to their lower-case letters and leaves every other
  character alone; \<open>trim\<close> strips the ASCII white space (space, TAB, LF, VT, FF, CR) from
  both ends; \<open>str_includes s k\<close> is \<open>s.includes(k)\<close>.
\<close>

definition lower_char :: "char \<Rightarrow> char" where
  "lower_char c =
     (case map_of (zip ''ABCDEFGHIJKLMNOPQRSTUVWXYZ'' ''abcdefghijklmnopqrstuvwxyz'') c of
        Some l \<Rightarrow> l
      | None \<Rightarrow> c)"

definition toLowerCase :: "string \<Rightarrow> string" where
  "toLowerCase s = map lower_char s"

definition is_space :: "char \<Rightarrow> bool" where
  "is_space c = (c \<in> set [CHR '' '', CHR 0x09, CHR 0x0A, CHR 0x0B, CHR 0x0C, CHR 0x0D])"

definition trim :: "string \<Rightarrow> string" where
  "trim s = rev (dropWhile is_space (rev (dropWhile is_space s)))"

fun str_includes :: "string \<Rightarrow> string \<Rightarrow> bool" where
  "str_includes [] k = (k = [])"
| "str_includes (c # cs) k = (prefix k (c # cs) \<or> str_includes cs k)"

text \<open>\<open>/(k1|k2|...)/.test(s)\<close> for literal alternatives: one of them occurs in \<open>s\<close>.\<close>

definition test_any :: "string list \<Rightarrow> string \<Rightarrow> bool" where
  "test_any ks s = list_ex (\<lambda>k. str_includes s k) ks"

section \<open>Priority assignment (server.ts, assignPriority)\<close>

definition lowKeywords :: "string list" where
  "lowKeywords = [''minor'', ''small'', ''request'', ''info'']"

definition assignPriority :: "string \<Rightarrow> string \<Rightarrow> string" where
  "assignPriority category description =
     (let desc = toLowerCase description in
      if category = ''Water'' \<and>
         (str_includes desc ''leak'' \<or> str_includes desc ''burst'' \<or> str_includes desc ''overflow'')
      then ''High''
      else if category = ''Road'' \<and>
         (str_includes desc ''accident'' \<or> str_includes desc ''pothole'' \<or> str_includes desc ''big'')
      then ''High''
      else if category = ''Garbage'' \<and>
         (str_includes desc ''overflow'' \<or> str_includes desc ''too much'')
      then ''High''
      else if list_ex (\<lambda>k. str_includes desc k) lowKeywords then ''Low''
      else ''Medium'')"

text \<open>
  The rule table as the specification words it (section 4.6): a high-priority rule is a
  pair of a category and a keyword, a low-priority rule is a keyword, and a keyword matches
  when it occurs somewhere in the description, case-insensitively.  Occurrence is the
  library's \<^const>\<open>sublist\<close>, that is \<open>\<exists>ps ss. d = ps @ k @ ss\<close>.
\<close>

definition spec_high_rules :: "(string \<times> string) list" where
  "spec_high_rules =
     [(''Water'', ''leak''), (''Water'', ''burst''), (''Water'', ''overflow''),
      (''Road'', ''accident''), (''Road'', ''pothole''), (''Road'', ''big''),
      (''Garbage'', ''overflow''), (''Garbage'', ''too much'')]"

definition spec_low_keywords :: "string list" where
  "spec_low_keywords = [''minor'', ''small'', ''request'', ''info'']"

definition spec_high :: "string \<Rightarrow> string \<Rightarrow> bool" where
  "spec_high category description =
     list_ex (\<lambda>(c, k). c = category \<and> sublist k (toLowerCase description)) spec_high_rules"

definition spec_low :: "string \<Rightarrow> bool" where
  "spec_low description =
     list_ex (\<lambda>k. sublist k (toLowerCase description)) spec_low_keywords"

section \<open>SHA-256 (the digest behind crypto.createHash("sha256"))\<close>

text \<open>
  The digest of FIPS 180-4 on a list of bytes.  A 32-bit word is an \<^typ>\<open>int\<close> in
  \<open>0..<2^32\<close>; addition wraps with \<open>mod 2^32\<close> written out, and the bitwise complement of
  \<open>x\<close> is \<open>2^32 - 1 - x\<close>.  The message schedule is kept as a window of sixteen words that
  slides by one word per round.  \<open>update(s, "utf8")\<close> digests the bytes of the UTF-8 encoding
  of \<open>s\<close>, which are the characters of the model's string.  The round constants \<open>K256\<close> and the initial hash value
  \<open>H256\<close> are written in decimal (the first is 0x428a2f98, the second table starts with
  0x6a09e667); the standard's test vector for "abc" is checked below.
\<close>

definition add32 :: "int \<Rightarrow> int \<Rightarrow> int" where
  "add32 x y = (x + y) mod 4294967296"

definition rotr :: "nat \<Rightarrow> int \<Rightarrow> int" where
  "rotr n x = (x div 2 ^ n) OR ((x * 2 ^ (32 - n)) mod 4294967296)"

definition shr :: "nat \<Rightarrow> int \<Rightarrow> int" where
  "shr n x = x div 2 ^ n"

definition not32 :: "int \<Rightarrow> int" where
  "not32 x = 4294967295 - x"

definition Ch :: "int \<Rightarrow> int \<Rightarrow> int \<Rightarrow> int" where
  "Ch x y z = (x AND y) XOR (not32 x AND z)"

definition Maj :: "int \<Rightarrow> int \<Rightarrow> int \<Rightarrow> int" where
  "Maj x y z = (x AND y) XOR (x AND z) XOR (y AND z)"

definition bsig0 :: "int \<Rightarrow> int" where
  "bsig0 x = rotr 2 x XOR rotr 13 x XOR rotr 22 x"

definition bsig1 :: "int \<Rightarrow> int" where
  "bsig1 x = rotr 6 x XOR rotr 11 x XOR rotr 25 x"

definition ssig0 :: "int \<Rightarrow> int" where
  "ssig0 x = rotr 7 x XOR rotr 18 x XOR shr 3 x"

definition ssig1 :: "int \<Rightarrow> int" where
  "ssig1 x = rotr 17 x XOR rotr 19 x XOR shr 10 x"

definition K256 :: "int list" where
  "K256 = [
     1116352408, 1899447441, 3049323471, 3921009573, 961987163, 1508970993,
     2453635748, 2870763221, 3624381080, 310598401, 607225278, 1426881987,
     1925078388, 2162078206, 2614888103, 3248222580, 3835390401, 4022224774,
     264347078, 604807628, 770255983, 1249150122, 1555081692, 1996064986,
     2554220882, 2821834349, 2952996808, 3210313671, 3336571891, 3584528711,
     113926993, 338241895, 666307205, 773529912, 1294757372, 1396182291,
     1695183700, 1986661051, 2177026350, 2456956037, 2730485921, 2820302411,
     3259730800, 3345764771, 3516065817, 3600352804, 4094571909, 275423344,
     430227734, 506948616, 659060556, 883997877, 958139571, 1322822218,
     1537002063, 1747873779, 1955562222, 2024104815, 2227730452, 2361852424,
     2428436474, 2756734187, 3204031479, 3329325298]"

definition H256 :: "int list" where
  "H256 = [
     1779033703, 3144134277, 1013904242, 2773480762,
     1359893119, 2600822924, 528734635, 1541459225]"

fun round256 :: "int list \<Rightarrow> int \<Rightarrow> int \<Rightarrow> int list" where
  "round256 [a, b, c, d, e, f, g, h] k w =
     (let t1 = add32 (add32 (add32 (add32 h (bsig1 e)) (Ch e f g)) k) w;
          t2 = add32 (bsig0 a) (Maj a b c)
      in [add32 t1 t2, a, b, c, add32 d t1, e, f, g])"
| "round256 s _ _ = s"

fun rounds :: "int list \<Rightarrow> int list \<Rightarrow> int list \<Rightarrow> int list" where
  "rounds [] win s = s"
| "rounds (k # ks) win s =
     rounds ks
       (tl win @ [add32 (add32 (add32 (ssig1 (win ! 14)) (win ! 9)) (ssig0 (win ! 1))) (win ! 0)])
       (round256 s k (win ! 0))"

definition compress :: "int list \<Rightarrow> int list \<Rightarrow> int list" where
  "compress hs block = map2 add32 hs (rounds K256 block hs)"

fun be32 :: "int list \<Rightarrow> int list" where
  "be32 (a # b # c # d # r) = (((a * 256 + b) * 256 + c) * 256 + d) # be32 r"
| "be32 _ = []"

fun chunks :: "'a list \<Rightarrow> 'a list list" where
  "chunks [] = []"
| "chunks (x # xs) = take 16 (x # xs) # chunks (drop 16 (x # xs))"

definition be64_bytes :: "int \<Rightarrow> int list" where
  "be64_bytes n = map (\<lambda>i. (n div 256 ^ i) mod 256) [7, 6, 5, 4, 3, 2, 1, 0::nat]"

definition pad :: "int list \<Rightarrow> int list" where
  "pad m = m @ [128] @ replicate ((119 - length m mod 64) mod 64) 0
             @ be64_bytes (8 * int (length m))"

definition hex32 :: "int \<Rightarrow> string" where
  "hex32 w = map (\<lambda>i. ''0123456789abcdef'' ! nat ((w div 16 ^ i) mod 16))
                 [7, 6, 5, 4, 3, 2, 1, 0::nat]"

definition sha256_hex :: "string \<Rightarrow> string" where
  "sha256_hex s =
     concat (map hex32 (foldl compress H256 (chunks (be32 (pad (map of_char s))))))"

section \<open>Moderation helpers (server.ts, lines 215-249)\<close>

text \<open>
  \<open>a || b\<close> on strings: the empty string is the only falsy string.
\<close>

definition js_or :: "string \<Rightarrow> string \<Rightarrow> string" where
  "js_or a b = (if a \<noteq> [] then a else b)"

text \<open>\<open>xs.join(sep)\<close>.\<close>

fun join :: "string \<Rightarrow> string list \<Rightarrow> string" where
  "join sep [] = []"
| "join sep [x] = x"
| "join sep (x # y # ys) = x @ sep @ join sep (y # ys)"

definition isResolvedStatus :: "string \<Rightarrow> bool" where
  "isResolvedStatus status =
     (let v = toLowerCase (trim status)
      in v = ''closed'' \<or> v = ''resolved'' \<or> v = ''resolved (pending admin)'')"

definition normalizeCategory :: "string \<Rightarrow> string" where
  "normalizeCategory v =
     (let normalized = toLowerCase (trim v) in
      if normalized = ''garbage'' then ''Garbage''
      else if normalized = ''road'' then ''Road''
      else if normalized = ''water'' then ''Water''
      else if normalized = ''streetlight'' then ''Streetlight''
      else ''Other'')"

definition classifyFromText :: "string \<Rightarrow> string \<Rightarrow> string \<times> real" where
  "classifyFromText description submittedCategory =
     (let text = toLowerCase description in
      if test_any [''garbage'', ''trash'', ''waste'', ''dump'', ''bin''] text
      then (''Garbage'', 0.75)
      else if test_any [''pothole'', ''road'', ''asphalt'', ''traffic'', ''street crack''] text
      then (''Road'', 0.75)
      else if test_any [''water'', ''pipe'', ''leak'', ''sewage'', ''drain'', ''overflow''] text
      then (''Water'', 0.75)
      else if test_any [''streetlight'', ''street light'', ''lamp'', ''dark street'',
                        ''light pole''] text
      then (''Streetlight'', 0.75)
      else (normalizeCategory submittedCategory, 0.55))"

subsection \<open>parseImageDataUrl\<close>

text \<open>
  The regular expression
  \<^verbatim>\<open>^data:(image\/[a-zA-Z0-9.+-]+);base64,([A-Za-z0-9+/=\r\n]+)$\<close>
  is matched against the trimmed payload.  Its first class does not contain \<open>;\<close>, so the
  MIME subtype is the longest run of class characters after \<open>data:image/\<close>; the run must
  be non-empty and be followed by \<open>;base64,\<close>; everything after that must be a non-empty
  run of the second class up to the end of the input.  The result carries the MIME type
  and the base64 text with its white space (here: CR and LF) removed.
\<close>

definition is_alnum :: "char \<Rightarrow> bool" where
  "is_alnum c =
     (c \<in> set ''abcdefghijklmnopqrstuvwxyzABCDEFGHIJKLMNOPQRSTUVWXYZ0123456789'')"

definition is_mime_char :: "char \<Rightarrow> bool" where
  "is_mime_char c = (is_alnum c \<or> c \<in> set ''.+-'')"

definition is_b64_char :: "char \<Rightarrow> bool" where
  "is_b64_char c = (is_alnum c \<or> c \<in> set ''+/='' \<or> c = CHR 0x0D \<or> c = CHR 0x0A)"

definition parseImageDataUrl :: "string \<Rightarrow> (string \<times> string) option" where
  "parseImageDataUrl photoUrl =
     (let trimmed = trim photoUrl in
      if \<not> prefix ''data:image/'' trimmed then None
      else
        let rest = drop 11 trimmed;
            subtype = takeWhile is_mime_char rest;
            after = dropWhile is_mime_char rest;
            payload = drop 8 after
        in if subtype \<noteq> [] \<and> prefix '';base64,'' after
              \<and> payload \<noteq> [] \<and> list_all is_b64_char payload
           then Some (''image/'' @ subtype, filter (\<lambda>c. \<not> is_space c) payload)
           else None)"

text \<open>
  The content that \<open>runImageModeration\<close> feeds to the digest (lines 343-350): nothing when
  the trimmed payload is empty, the base64 text of an image data URL, and the whole trimmed
  payload otherwise.
\<close>

definition hash_input :: "string \<Rightarrow> string option" where
  "hash_input photoUrl =
     (let normalizedPhoto = trim photoUrl in
      if normalizedPhoto = [] then None
      else (case parseImageDataUrl normalizedPhoto of
              Some (mimeType, data) \<Rightarrow> Some data
            | None \<Rightarrow> Some normalizedPhoto))"

text \<open>The fingerprint \<open>imageHash\<close> of lines 343-350, trimming included.\<close>

definition imageHash :: "string \<Rightarrow> string option" where
  "imageHash photoUrl = map_option sha256_hex (hash_input photoUrl)"

text \<open>
  Base64 decoding as the specification's "decoded binary content" of a payload: each
  alphabet character stands for six bits, padding and line breaks carry none, and the bits
  are read off in whole bytes (bits left over are dropped, as Buffer.from(s, "base64") and
  atob do).  The source never decodes; this definition only states what the claim about
  the fingerprint compares.
\<close>

definition b64_value :: "char \<Rightarrow> nat option" where
  "b64_value c =
     map_of (zip ''ABCDEFGHIJKLMNOPQRSTUVWXYZabcdefghijklmnopqrstuvwxyz0123456789+/''
                 [0 ..< 64]) c"

definition bits6 :: "nat \<Rightarrow> bool list" where
  "bits6 n = map (\<lambda>i. odd (n div 2 ^ i)) [5, 4, 3, 2, 1, 0]"

fun bytes_of_bits :: "bool list \<Rightarrow> nat list" where
  "bytes_of_bits (b7 # b6 # b5 # b4 # b3 # b2 # b1 # b0 # r) =
     foldl (\<lambda>a b. 2 * a + of_bool b) 0 [b7, b6, b5, b4, b3, b2, b1, b0] # bytes_of_bits r"
| "bytes_of_bits _ = []"

definition spec_base64_decode :: "string \<Rightarrow> nat list" where
  "spec_base64_decode s =
     bytes_of_bits (concat (map (\<lambda>c. case b64_value c of Some v \<Rightarrow> bits6 v | None \<Rightarrow> []) s))"

section \<open>The store (server.ts, lines 30-86)\<close>

text \<open>
  The three tables the intake pipeline touches, each a list of rows in insertion order.
  A nullable TEXT column is a \<^typ>\<open>string option\<close>; REAL columns are \<^typ>\<open>real\<close> (the
  coordinates and the confidence are taken as finite numbers); \<open>createdAt\<close> is the clock
  reading in seconds that \<open>CURRENT_TIMESTAMP\<close> stored.  The \<open>moderationFlags\<close> column holds
  the JSON text of an object with the fields model, aiGenerated, spam and duplicate; it is
  kept as that tuple.
\<close>

record complaint =
  c_id :: string
  c_userId :: string
  c_category :: string
  c_description :: string
  c_photoUrl :: string
  c_latitude :: real
  c_longitude :: real
  c_priority :: string
  c_status :: string
  c_workerName :: "string option"
  c_area :: string
  c_city :: string
  c_state :: string
  c_fullAddress :: string
  c_ward :: string
  c_division :: string
  c_department :: string
  c_assignedOfficerId :: "string option"
  c_assignedOfficerName :: "string option"
  c_imageHash :: "string option"
  c_moderationFlags :: "string \<times> bool \<times> bool \<times> bool"
  c_aiGeneratedFlag :: bool
  c_spamFlag :: bool
  c_duplicateFlag :: bool
  c_classifiedCategory :: string
  c_classificationConfidence :: real
  c_createdAt :: nat

record notification =
  n_id :: string
  n_complaintId :: string
  n_type :: string
  n_message :: string
  n_isRead :: bool
  n_createdAt :: nat

record officer =
  o_id :: string
  o_name :: string
  o_email :: "string option"
  o_ward :: "string option"
  o_division :: "string option"
  o_department :: "string option"

record store =
  complaints :: "complaint list"
  notifications :: "notification list"
  officers :: "officer list"

text \<open>The officers seeded at start-up (lines 102-112).\<close>

definition en_dash :: string where
  "en_dash = [CHR 0xE2, CHR 0x80, CHR 0x93]"

definition ward_name :: "string \<Rightarrow> string" where
  "ward_name zone = ''Amravati Ward '' @ en_dash @ '' '' @ zone"

definition seed_officers :: "officer list" where
  "seed_officers =
     [\<lparr>o_id = ''OFF-001'', o_name = ''Rohit Patil'', o_email = Some ''adhalhari2@gmail.com'',
       o_ward = Some (ward_name ''Pushpak Colony Zone''), o_division = Some ''Zone-1'',
       o_department = Some ''Sanitation''\<rparr>,
      \<lparr>o_id = ''OFF-002'', o_name = ''Ayesha Khan'', o_email = Some ''adhalhari2@gmail.com'',
       o_ward = Some (ward_name ''Rajapeth Zone''), o_division = Some ''Zone-2'',
       o_department = Some ''Road''\<rparr>,
      \<lparr>o_id = ''OFF-003'', o_name = ''Suresh Jadhav'', o_email = Some ''adhalhari2@gmail.com'',
       o_ward = Some (ward_name ''Panchvati Zone''), o_division = Some ''Zone-3'',
       o_department = Some ''Water''\<rparr>,
      \<lparr>o_id = ''OFF-004'', o_name = ''Neha Deshmukh'', o_email = Some ''adhalhari2@gmail.com'',
       o_ward = Some (ward_name ''Old City Zone''), o_division = Some ''Zone-4'',
       o_department = Some ''Streetlight''\<rparr>]"

section \<open>Spam heuristics (server.ts, detectSpamSignals)\<close>

text \<open>
  \<open>any_suffix P s\<close>: the pattern \<open>P\<close>, anchored at its start, matches at some position of
  \<open>s\<close>.  \<^verbatim>\<open>/([a-zA-Z])\1{6,}/\<close> matches at a position where a letter is followed by six
  more copies of itself; \<^verbatim>\<open>/test\s*test/\<close> where \<open>test\<close>, any white space and \<open>test\<close>
  follow each other.
\<close>

fun any_suffix :: "(string \<Rightarrow> bool) \<Rightarrow> string \<Rightarrow> bool" where
  "any_suffix P [] = P []"
| "any_suffix P (c # cs) = (P (c # cs) \<or> any_suffix P cs)"

definition is_letter :: "char \<Rightarrow> bool" where
  "is_letter c = (c \<in> set ''abcdefghijklmnopqrstuvwxyzABCDEFGHIJKLMNOPQRSTUVWXYZ'')"

definition letter_run_at :: "string \<Rightarrow> bool" where
  "letter_run_at s =
     (case s of [] \<Rightarrow> False | c # cs \<Rightarrow> is_letter c \<and> prefix [c, c, c, c, c, c] cs)"

definition test_test_at :: "string \<Rightarrow> bool" where
  "test_test_at s =
     (prefix ''test'' s \<and> prefix ''test'' (dropWhile is_space (drop 4 s)))"

text \<open>
  The history query (lines 261-267): SQLite's \<open>trim\<close> strips spaces only, its \<open>lower\<close> folds
  the ASCII capitals, and the trailing window of seven days is 604800 seconds.
\<close>

definition sql_trim :: "string \<Rightarrow> string" where
  "sql_trim s =
     rev (dropWhile (\<lambda>c. c = CHR '' '') (rev (dropWhile (\<lambda>c. c = CHR '' '') s)))"

definition repeatedByUser :: "store \<Rightarrow> nat \<Rightarrow> string \<Rightarrow> string \<Rightarrow> nat" where
  "repeatedByUser db now userId text =
     length (filter (\<lambda>r. c_userId r = userId
                        \<and> toLowerCase (sql_trim (c_description r)) = toLowerCase (sql_trim text)
                        \<and> now \<le> c_createdAt r + 604800)
                    (complaints db))"

definition spam_reasons :: "store \<Rightarrow> nat \<Rightarrow> string \<Rightarrow> string \<Rightarrow> string list" where
  "spam_reasons db now userId description =
     (let text = trim description;
          lower = toLowerCase text
      in (if length text < 8 then [''Description is too short.''] else [])
       @ (if test_any [''http://'', ''https://'', ''www.''] lower
          then [''Description contains promotional links.''] else [])
       @ (if any_suffix letter_run_at lower
          then [''Description has repeated characters.''] else [])
       @ (if any_suffix test_test_at lower \<or> test_any [''asdf'', ''qwerty'', ''dummy''] lower
          then [''Description looks like spam/test content.''] else [])
       @ (if 2 \<le> repeatedByUser db now userId text
          then [''Same description was already submitted repeatedly by this user.'']
          else []))"

definition detectSpamSignals :: "store \<Rightarrow> nat \<Rightarrow> string \<Rightarrow> string \<Rightarrow> bool \<times> string" where
  "detectSpamSignals db now userId description =
     (let reasons = spam_reasons db now userId description
      in (reasons \<noteq> [], join '' '' reasons))"

text \<open>The reason of the repeated-characters rule (line 258).\<close>

definition repeated_reason :: string where
  "repeated_reason = ''Description has repeated characters.''"

section \<open>What one submission receives from outside\<close>

text \<open>
  The handler reads the request body, the store, and a few things that are not determined
  by either: the two random identifiers \<open>uid("CMP")\<close> and \<open>uid("NTF")\<close>, the clock, whether
  \<open>GEMINI_API_KEY\<close> is set, the reply of the remote vision classifier, the reply of the
  reverse geocoder, and whether the store raises on the complaint INSERT for a reason of
  its own (disk full, database locked, a value it cannot bind).  They are gathered in one
  record.  A reply of \<open>None\<close> stands for every way in which the call throws: a network
  error, a non-2xx status, a body that is not JSON or is the JSON value \<open>null\<close>.  A
  geocoder reply that is JSON but names no address is a reply all of whose fields are
  absent.

  A number as JavaScript has it is finite or one of NaN and the two infinities.  The
  flags and texts of the classifier's JSON reply are kept as the values of the coercions
  the source applies to them, \<open>!!x\<close> and \<open>String(x || "")\<close>.  The confidence is kept as the
  JSON value that \<open>JSON.parse\<close> returned for the field, \<open>JUndefined\<close> when the field is
  missing, and \<open>js_Number\<close> below is the \<open>Number(...)\<close> that line 321 applies to it.
  An absent or falsy field of the geocoder's reply is the empty string.
\<close>

datatype jsnumber = Finite real | NaN | PosInfinity | NegInfinity

datatype json = JUndefined | JNull | JBool bool | JNum real | JStr string | JArr "json list" | JObj

text \<open>
  A real number as the double nearest to it: from \<open>2^1024 - 2^970\<close> on, the rounding gives
  an infinity.  Below that bound the value itself stands for the double.
\<close>

definition number_of_real :: "real \<Rightarrow> jsnumber" where
  "number_of_real x =
     (if 2 ^ 1024 - 2 ^ 970 \<le> x then PosInfinity
      else if x \<le> - (2 ^ 1024 - 2 ^ 970) then NegInfinity
      else Finite x)"

fun negate :: "jsnumber \<Rightarrow> jsnumber" where
  "negate (Finite x) = Finite (- x)"
| "negate PosInfinity = NegInfinity"
| "negate NegInfinity = PosInfinity"
| "negate NaN = NaN"

text \<open>
  \<open>Number(s)\<close> on a string (ECMAScript, StringToNumber): white space around the literal is
  dropped; the empty string is 0; a literal is \<open>0x\<close>, \<open>0o\<close> or \<open>0b\<close> with digits of that
  base, or an optional sign before \<open>Infinity\<close> or before a decimal literal (digits with an
  optional fraction, or a fraction alone, and an optional exponent); anything else is NaN.
\<close>

definition is_digit :: "char \<Rightarrow> bool" where
  "is_digit c = (c \<in> set ''0123456789'')"

definition digit_value :: "char \<Rightarrow> nat" where
  "digit_value c =
     (case map_of (zip ''0123456789abcdef'' [0, 1, 2, 3, 4, 5, 6, 7, 8, 9, 10, 11, 12, 13, 14, 15])
             (lower_char c) of
        Some v \<Rightarrow> v
      | None \<Rightarrow> 0)"

definition digits_value :: "nat \<Rightarrow> string \<Rightarrow> nat" where
  "digits_value base s = foldl (\<lambda>a c. base * a + digit_value c) 0 s"

definition non_decimal :: "string \<Rightarrow> nat option" where
  "non_decimal s =
     (case s of
        z # p # ds \<Rightarrow>
          if z = CHR ''0'' \<and> ds \<noteq> [] then
            (if p \<in> set ''xX'' \<and> list_all (\<lambda>c. c \<in> set ''0123456789abcdefABCDEF'') ds
             then Some (digits_value 16 ds)
             else if p \<in> set ''oO'' \<and> list_all (\<lambda>c. c \<in> set ''01234567'') ds
             then Some (digits_value 8 ds)
             else if p \<in> set ''bB'' \<and> list_all (\<lambda>c. c \<in> set ''01'') ds
             then Some (digits_value 2 ds)
             else None)
          else None
      | _ \<Rightarrow> None)"

definition signed_digits :: "string \<Rightarrow> int option" where
  "signed_digits s =
     (let neg = prefix ''-'' s;
          ds = (if prefix ''-'' s \<or> prefix ''+'' s then tl s else s)
      in if ds \<noteq> [] \<and> list_all is_digit ds
         then Some (if neg then - int (digits_value 10 ds) else int (digits_value 10 ds))
         else None)"

definition exponent_part :: "string \<Rightarrow> int option" where
  "exponent_part s =
     (case s of
        [] \<Rightarrow> Some 0
      | c # r \<Rightarrow> if c \<in> set ''eE'' then signed_digits r else None)"

definition scale10 :: "real \<Rightarrow> int \<Rightarrow> real" where
  "scale10 m ex = (if 0 \<le> ex then m * 10 ^ nat ex else m / 10 ^ nat (- ex))"

definition unsigned_decimal :: "string \<Rightarrow> jsnumber" where
  "unsigned_decimal s =
     (if s = ''Infinity'' then PosInfinity
      else
        let ip = takeWhile is_digit s;
            r1 = dropWhile is_digit s;
            dot = prefix ''.'' r1;
            fp = (if dot then takeWhile is_digit (tl r1) else []);
            r2 = (if dot then dropWhile is_digit (tl r1) else r1)
        in if ip = [] \<and> fp = [] then NaN
           else (case exponent_part r2 of
                   None \<Rightarrow> NaN
                 | Some ex \<Rightarrow>
                     number_of_real
                       (scale10 (real (digits_value 10 (ip @ fp))) (ex - int (length fp)))))"

definition str_decimal :: "string \<Rightarrow> jsnumber" where
  "str_decimal s =
     (if prefix ''+'' s then unsigned_decimal (tl s)
      else if prefix ''-'' s then negate (unsigned_decimal (tl s))
      else unsigned_decimal s)"

definition StringToNumber :: "string \<Rightarrow> jsnumber" where
  "StringToNumber s =
     (let t = trim s in
      if t = [] then Finite 0
      else (case non_decimal t of
              Some n \<Rightarrow> number_of_real (real n)
            | None \<Rightarrow> str_decimal t))"

text \<open>
  \<open>Number(v)\<close> on a JSON value.  A missing field is \<open>undefined\<close>, which is NaN; \<open>null\<close> is 0;
  \<open>false\<close> and \<open>true\<close> are 0 and 1; a number is itself; a string is parsed.  An object is
  first turned into the string \<open>[object Object]\<close>, which is NaN.  An array is first turned
  into the string that joins its elements with commas, where \<open>null\<close> gives the empty
  string and a nested array its own joined string: the empty array is 0, an array of one
  element is the number of that element's string, and a longer array is NaN because of the
  comma.
\<close>

fun js_Number :: "json \<Rightarrow> jsnumber" where
  "js_Number JUndefined = NaN"
| "js_Number JNull = Finite 0"
| "js_Number (JBool b) = Finite (if b then 1 else 0)"
| "js_Number (JNum x) = number_of_real x"
| "js_Number (JStr s) = StringToNumber s"
| "js_Number JObj = NaN"
| "js_Number (JArr []) = Finite 0"
| "js_Number (JArr [JUndefined]) = Finite 0"
| "js_Number (JArr [JNull]) = Finite 0"
| "js_Number (JArr [JBool b]) = NaN"
| "js_Number (JArr [JNum x]) = number_of_real x"
| "js_Number (JArr [JStr s]) = StringToNumber s"
| "js_Number (JArr [JObj]) = NaN"
| "js_Number (JArr [JArr ys]) = js_Number (JArr ys)"
| "js_Number (JArr (x # y # zs)) = NaN"

text \<open>\<open>Number.isFinite\<close>.\<close>

fun isFinite :: "jsnumber \<Rightarrow> bool" where
  "isFinite (Finite c) = True"
| "isFinite _ = False"

record gemini_json =
  j_isLikelyAiGenerated :: bool
  j_aiGeneratedReason :: string
  j_isSpam :: bool
  j_spamReason :: string
  j_problemCategory :: string
  j_categoryConfidence :: json

record nominatim =
  display_name :: string
  a_suburb :: string
  a_neighbourhood :: string
  a_village :: string
  a_town :: string
  a_city_district :: string
  a_city :: string
  a_district :: string
  a_municipality :: string
  a_county :: string
  a_state_district :: string
  a_state :: string

record env =
  uid_CMP :: string
  uid_NTF :: string
  clock :: nat
  GEMINI_API_KEY :: bool
  gemini_reply :: "gemini_json option"
  geocode_reply :: "nominatim option"
  complaint_insert_fault :: bool

section \<open>Remote classifier and moderation (server.ts, lines 286-382)\<close>

record GeminiImageScan =
  g_isLikelyAiGenerated :: bool
  g_aiGeneratedReason :: string
  g_isSpam :: bool
  g_spamReason :: string
  g_problemCategory :: string
  g_categoryConfidence :: real

definition clamp_confidence :: "jsnumber \<Rightarrow> real" where
  "clamp_confidence confidence =
     (case confidence of Finite c \<Rightarrow> max 0 (min 1 c) | _ \<Rightarrow> 0.6)"

definition scanWithGeminiIfAvailable :: "env \<Rightarrow> string \<Rightarrow> string \<Rightarrow> GeminiImageScan option" where
  "scanWithGeminiIfAvailable e photoUrl description =
     (if \<not> GEMINI_API_KEY e \<or> parseImageDataUrl photoUrl = None then None
      else (case gemini_reply e of
              None \<Rightarrow> None
            | Some parsedJson \<Rightarrow>
                Some \<lparr>g_isLikelyAiGenerated = j_isLikelyAiGenerated parsedJson,
                      g_aiGeneratedReason = j_aiGeneratedReason parsedJson,
                      g_isSpam = j_isSpam parsedJson,
                      g_spamReason = j_spamReason parsedJson,
                      g_problemCategory = normalizeCategory (j_problemCategory parsedJson),
                      g_categoryConfidence =
                        clamp_confidence (js_Number (j_categoryConfidence parsedJson))\<rparr>))"

record ImageModerationResult =
  m_imageHash :: "string option"
  m_isLikelyAiGenerated :: bool
  m_aiGeneratedReason :: string
  m_isSpam :: bool
  m_spamReason :: string
  m_isDuplicate :: bool
  m_duplicateAgainst :: "(string \<times> string) option"
  m_classifiedCategory :: string
  m_classificationConfidence :: real
  m_model :: string

text \<open>
  The duplicate query (lines 352-360): among the rows with the given fingerprint, the one
  created last.  Where several rows share the latest time stamp SQLite may return any of
  them; the model takes the first of them in table order.
\<close>

fun newest :: "complaint list \<Rightarrow> complaint option" where
  "newest [] = None"
| "newest (r # rs) =
     (case newest rs of
        None \<Rightarrow> Some r
      | Some m \<Rightarrow> if c_createdAt r < c_createdAt m then Some m else Some r)"

definition find_duplicate :: "store \<Rightarrow> string option \<Rightarrow> complaint option" where
  "find_duplicate db h =
     (case h of
        None \<Rightarrow> None
      | Some x \<Rightarrow> newest (filter (\<lambda>r. c_imageHash r = Some x) (complaints db)))"

text \<open>The reason that line 367 gives for a stale duplicate.\<close>

definition stale_reason :: "complaint \<Rightarrow> string" where
  "stale_reason d =
     ''Same image was previously reported and resolved (Complaint '' @ c_id d @ '').''"

text \<open>
  \<open>runImageModeration\<close>.  Its fingerprint is \<open>imageHash\<close> above, which trims the payload
  as line 343 does.
\<close>

definition runImageModeration ::
  "env \<Rightarrow> store \<Rightarrow> string \<Rightarrow> string \<Rightarrow> string \<Rightarrow> string \<Rightarrow> ImageModerationResult" where
  "runImageModeration e db userId photoUrl description submittedCategory =
     (let normalizedPhoto = trim photoUrl;
          hash = imageHash photoUrl;
          duplicate = find_duplicate db hash;
          spamHeuristic = detectSpamSignals db (clock e) userId description;
          textClassification = classifyFromText description submittedCategory;
          gemini = scanWithGeminiIfAvailable e normalizedPhoto description;
          duplicateIsResolved =
            (case duplicate of None \<Rightarrow> False | Some d \<Rightarrow> isResolvedStatus (c_status d));
          duplicateSpamReason =
            (case duplicate of
               Some d \<Rightarrow>
                 if isResolvedStatus (c_status d)
                 then ''Same image was previously reported and resolved (Complaint ''
                        @ c_id d @ '').''
                 else []
             | None \<Rightarrow> [])
      in \<lparr>m_imageHash = hash,
          m_isLikelyAiGenerated =
            (case gemini of Some g \<Rightarrow> g_isLikelyAiGenerated g | None \<Rightarrow> False),
          m_aiGeneratedReason =
            (case gemini of Some g \<Rightarrow> g_aiGeneratedReason g | None \<Rightarrow> []),
          m_isSpam =
            (fst spamHeuristic
             \<or> (case gemini of Some g \<Rightarrow> g_isSpam g | None \<Rightarrow> False)
             \<or> duplicateIsResolved),
          m_spamReason =
            trim (join '' ''
              (filter (\<lambda>x. x \<noteq> [])
                 [snd spamHeuristic,
                  (case gemini of Some g \<Rightarrow> g_spamReason g | None \<Rightarrow> []),
                  duplicateSpamReason])),
          m_isDuplicate = (duplicate \<noteq> None),
          m_duplicateAgainst = map_option (\<lambda>d. (c_id d, c_status d)) duplicate,
          m_classifiedCategory =
            (case gemini of
               Some g \<Rightarrow> js_or (g_problemCategory g) (fst textClassification)
             | None \<Rightarrow> fst textClassification),
          m_classificationConfidence =
            (case gemini of
               Some g \<Rightarrow> g_categoryConfidence g
             | None \<Rightarrow> snd textClassification),
          m_model = (case gemini of Some g \<Rightarrow> ''gemini-2.5-flash'' | None \<Rightarrow> ''heuristic'')\<rparr>)"

section \<open>Geocoding, ward and division, officer (server.ts, lines 399-448 and 576-613)\<close>

record location =
  l_area :: string
  l_city :: string
  l_state :: string
  l_fullAddress :: string
  l_ward :: string

text \<open>\<open>reverseGeocode\<close> throws exactly when the geocoder gave no usable reply.\<close>

definition reverseGeocode :: "env \<Rightarrow> real \<Rightarrow> real \<Rightarrow> location option" where
  "reverseGeocode e lat lon =
     (case geocode_reply e of
        None \<Rightarrow> None
      | Some a \<Rightarrow>
          Some \<lparr>l_area = js_or (a_suburb a) (js_or (a_neighbourhood a) (js_or (a_village a)
                           (js_or (a_town a) (js_or (a_city_district a)
                           (js_or (a_city a) ''Unknown''))))),
                l_city = js_or (a_city a) (js_or (a_town a) (js_or (a_village a)
                           (js_or (a_county a) ''Unknown''))),
                l_state = js_or (a_state a) ''Unknown'',
                l_fullAddress = js_or (display_name a) ''Unknown'',
                l_ward = js_or (a_suburb a) (js_or (a_neighbourhood a)
                           (js_or (a_city_district a) (js_or (a_district a)
                           (js_or (a_municipality a) (js_or (a_county a)
                           (js_or (a_state_district a) ''Unknown''))))))\<rparr>)"

definition fallback_location :: location where
  "fallback_location =
     \<lparr>l_area = ''Unknown'', l_city = ''Amravati'', l_state = ''Maharashtra'',
      l_fullAddress = ''Unknown'', l_ward = ''Unknown''\<rparr>"

definition mapToAmravatiWard :: "real \<Rightarrow> real \<Rightarrow> string option \<Rightarrow> string" where
  "mapToAmravatiWard lat lon fallbackWard =
     (if 20.870 \<le> lat \<and> lat \<le> 20.890 \<and> 77.730 \<le> lon \<and> lon \<le> 77.760
      then ward_name ''Pushpak Colony Zone''
      else if 20.900 \<le> lat \<and> lat \<le> 20.930 \<and> 77.740 \<le> lon \<and> lon \<le> 77.770
      then ward_name ''Rajapeth Zone''
      else if 20.940 \<le> lat \<and> lat \<le> 20.970 \<and> 77.750 \<le> lon \<and> lon \<le> 77.790
      then ward_name ''Panchvati Zone''
      else if 20.910 \<le> lat \<and> lat \<le> 20.930 \<and> 77.720 \<le> lon \<and> lon \<le> 77.740
      then ward_name ''Old City Zone''
      else (case fallbackWard of
              Some w \<Rightarrow> if w \<noteq> [] \<and> w \<noteq> ''Unknown'' then ward_name w
                        else ward_name ''Unassigned''
            | None \<Rightarrow> ward_name ''Unassigned''))"

definition mapWardToDivision :: "string \<Rightarrow> string" where
  "mapWardToDivision ward =
     (if str_includes ward ''Pushpak Colony'' then ''Zone-1''
      else if str_includes ward ''Rajapeth'' then ''Zone-2''
      else if str_includes ward ''Panchvati'' then ''Zone-3''
      else if str_includes ward ''Old City'' then ''Zone-4''
      else if str_includes ward (''Amravati Ward '' @ en_dash) then ''Zone-Unmapped''
      else ''Zone-Unmapped'')"

definition pickOfficerForWardOrDivision :: "store \<Rightarrow> string \<Rightarrow> string \<Rightarrow> officer option" where
  "pickOfficerForWardOrDivision db ward division =
     (case find (\<lambda>x. o_ward x = Some ward) (officers db) of
        Some byWard \<Rightarrow> Some byWard
      | None \<Rightarrow> find (\<lambda>x. o_division x = Some division) (officers db))"

text \<open>
  The coordinates alone decide the ward when they fall into one of the four rectangles.
\<close>

definition in_zone :: "real \<Rightarrow> real \<Rightarrow> bool" where
  "in_zone lat lon =
     ((20.870 \<le> lat \<and> lat \<le> 20.890 \<and> 77.730 \<le> lon \<and> lon \<le> 77.760)
      \<or> (20.900 \<le> lat \<and> lat \<le> 20.930 \<and> 77.740 \<le> lon \<and> lon \<le> 77.770)
      \<or> (20.940 \<le> lat \<and> lat \<le> 20.970 \<and> 77.750 \<le> lon \<and> lon \<le> 77.790)
      \<or> (20.910 \<le> lat \<and> lat \<le> 20.930 \<and> 77.720 \<le> lon \<and> lon \<le> 77.740))"

text \<open>The known ward names: the four zones and the sentinel.\<close>

definition fixed_wards :: "string list" where
  "fixed_wards =
     [ward_name ''Pushpak Colony Zone'', ward_name ''Rajapeth Zone'',
      ward_name ''Panchvati Zone'', ward_name ''Old City Zone'', ward_name ''Unassigned'']"

section \<open>Writes to the store (server.ts, lines 391-397 and 775-807)\<close>

text \<open>
  Both tables declare \<open>id TEXT PRIMARY KEY\<close>: an INSERT whose id is already present
  raises.  The complaint INSERT also raises when the store reports a fault of its own.
\<close>

datatype db_error = PrimaryKeyConstraint | StoreFault

definition notifyAdminAssignment ::
  "env \<Rightarrow> store \<Rightarrow> string \<Rightarrow> string \<Rightarrow> string \<Rightarrow> string \<Rightarrow> db_error + store" where
  "notifyAdminAssignment e db complaintId workerName category ward =
     (let msg = ''Complaint '' @ complaintId @ '' auto-assigned to '' @ workerName
                  @ '' ('' @ category @ '') in '' @ ward @ ''.''
      in if uid_NTF e \<in> set (map n_id (notifications db)) then Inl PrimaryKeyConstraint
         else Inr (db\<lparr>notifications := notifications db @
                      [\<lparr>n_id = uid_NTF e, n_complaintId = complaintId, n_type = ''ASSIGNED'',
                        n_message = msg, n_isRead = False, n_createdAt = clock e\<rparr>]\<rparr>))"

definition insert_complaint :: "env \<Rightarrow> store \<Rightarrow> complaint \<Rightarrow> db_error + store" where
  "insert_complaint e db row =
     (if complaint_insert_fault e then Inl StoreFault
      else if c_id row \<in> set (map c_id (complaints db)) then Inl PrimaryKeyConstraint
      else Inr (db\<lparr>complaints := complaints db @ [row]\<rparr>))"

section \<open>The intake handler (server.ts, app.post("/api/complaints"), lines 672-839)\<close>

record request =
  r_userId :: string
  r_category :: string
  r_description :: string
  r_photoUrl :: string
  r_latitude :: "real option"
  r_longitude :: "real option"

text \<open>
  The five outcomes by status code: 400 with its error text; 422 with error text and
  reason; 409 with error text and the id and status of the matched complaint; 201 with
  the complaint as it was inserted; 500 with its error text.
\<close>

datatype response =
  BadRequest string
| Unprocessable string string
| Conflict string "string \<times> string"
| Created complaint
| ServerError string

text \<open>The final category of lines 717-720.\<close>

definition classifiedCategory :: "ImageModerationResult \<Rightarrow> string \<Rightarrow> string" where
  "classifiedCategory moderation category =
     (if 0.6 \<le> m_classificationConfidence moderation
      then m_classifiedCategory moderation
      else normalizeCategory category)"

text \<open>Lines 726-738: the geocoder's answer, or the fixed fallback when it throws.\<close>

definition locate :: "env \<Rightarrow> real \<Rightarrow> real \<Rightarrow> location" where
  "locate e lat lon =
     (case reverseGeocode e lat lon of Some loc \<Rightarrow> loc | None \<Rightarrow> fallback_location)"

text \<open>
  The row of lines 775-807 from the values computed on lines 717-769.  An officer's name
  counts as assigned when it is a non-empty string.
\<close>

definition build_complaint ::
  "env \<Rightarrow> store \<Rightarrow> request \<Rightarrow> real \<Rightarrow> real \<Rightarrow> ImageModerationResult \<Rightarrow> complaint" where
  "build_complaint e db req lat lon moderation =
     (let cat = classifiedCategory moderation (r_category req);
          priority = assignPriority cat (r_description req);
          loc = locate e lat lon;
          ward = mapToAmravatiWard lat lon (Some (l_ward loc));
          division = mapWardToDivision ward;
          officer = pickOfficerForWardOrDivision db ward division;
          assignedOfficerName = map_option o_name officer;
          status = (case assignedOfficerName of
                      Some n \<Rightarrow> if n \<noteq> [] then ''In Progress'' else ''Submitted''
                    | None \<Rightarrow> ''Submitted'');
          department = (case officer of
                          Some x \<Rightarrow> (case o_department x of Some d \<Rightarrow> d
                                      | None \<Rightarrow> r_category req)
                        | None \<Rightarrow> r_category req)
      in \<lparr>c_id = uid_CMP e, c_userId = r_userId req, c_category = cat,
          c_description = r_description req, c_photoUrl = trim (r_photoUrl req),
          c_latitude = lat, c_longitude = lon, c_priority = priority, c_status = status,
          c_workerName = assignedOfficerName,
          c_area = l_area loc, c_city = l_city loc, c_state = l_state loc,
          c_fullAddress = l_fullAddress loc, c_ward = ward, c_division = division,
          c_department = department, c_assignedOfficerId = map_option o_id officer,
          c_assignedOfficerName = assignedOfficerName,
          c_imageHash = m_imageHash moderation,
          c_moderationFlags = (m_model moderation, m_isLikelyAiGenerated moderation,
                               m_isSpam moderation, m_isDuplicate moderation),
          c_aiGeneratedFlag = m_isLikelyAiGenerated moderation,
          c_spamFlag = m_isSpam moderation,
          c_duplicateFlag = m_isDuplicate moderation,
          c_classifiedCategory = cat,
          c_classificationConfidence = m_classificationConfidence moderation,
          c_createdAt = clock e\<rparr>)"

text \<open>
  Lines 771-838: the notification is written first, when an officer was assigned, then
  the complaint; either INSERT raising ends in the 500 answer of the \<open>catch\<close> block, with
  the store as the writes before the exception left it.
\<close>

definition persist :: "env \<Rightarrow> store \<Rightarrow> complaint \<Rightarrow> response \<times> store" where
  "persist e db row =
     (case (case c_assignedOfficerName row of
              Some n \<Rightarrow> if n \<noteq> []
                        then notifyAdminAssignment e db (c_id row) n (c_category row) (c_ward row)
                        else Inr db
            | None \<Rightarrow> Inr db) of
        Inl err \<Rightarrow> (ServerError ''Failed to create complaint'', db)
      | Inr db1 \<Rightarrow>
          (case insert_complaint e db1 row of
             Inl err \<Rightarrow> (ServerError ''Failed to create complaint'', db1)
           | Inr db2 \<Rightarrow> (Created row, db2)))"

text \<open>
  Line 703: the duplicate that rejects, a match whose status is not a resolved one.
\<close>

definition open_duplicate :: "ImageModerationResult \<Rightarrow> (string \<times> string) option" where
  "open_duplicate moderation =
     (if m_isDuplicate moderation
      then (case m_duplicateAgainst moderation of
              Some (i, st) \<Rightarrow> if \<not> isResolvedStatus st then Some (i, st) else None
            | None \<Rightarrow> None)
      else None)"

text \<open>
  The handler.  The officer e-mail of lines 748-764 has no counterpart here:
  \<open>sendOfficerEmail\<close> catches its own failure, returns nothing, and touches neither the
  store nor the response.
\<close>

definition post_complaints :: "env \<Rightarrow> request \<Rightarrow> store \<Rightarrow> response \<times> store" where
  "post_complaints e req db =
     (if r_userId req = [] \<or> r_category req = [] \<or> r_description req = []
      then (BadRequest ''Missing required fields'', db)
      else (case (r_latitude req, r_longitude req) of
              (Some lat, Some lon) \<Rightarrow>
                (let rawPhotoUrl = trim (r_photoUrl req);
                     moderation = runImageModeration e db (r_userId req) rawPhotoUrl
                                    (r_description req) (r_category req)
                 in if m_isLikelyAiGenerated moderation
                    then (Unprocessable
                            ''Uploaded image appears AI-generated. Please upload a real issue photo.''
                            (js_or (m_aiGeneratedReason moderation)
                                   ''Image authenticity check failed.''), db)
                    else (case open_duplicate moderation of
                            Some d \<Rightarrow>
                              (Conflict ''Problem already reported and not resolved yet.'' d, db)
                          | None \<Rightarrow>
                              if m_isSpam moderation
                              then (Unprocessable
                                      ''Upload flagged as spam. Please provide a valid civic issue report.''
                                      (js_or (m_spamReason moderation) ''Spam signal detected.''),
                                    db)
                              else persist e db (build_complaint e db req lat lon moderation)))
            | _ \<Rightarrow> (BadRequest ''Missing location'', db)))"

section \<open>The signals of one submission\<close>

text \<open>
  The moderation signals named by the specification (section 4.5), read off the request,
  the store and the replies from outside: the remote scan of the trimmed photo, the
  newest earlier complaint with the same fingerprint, whether that complaint is still open
  or already resolved, and the three sources of the spam flag.  A request is valid when it
  passes the two checks that precede moderation.
\<close>

definition valid_request :: "request \<Rightarrow> bool" where
  "valid_request req =
     (r_userId req \<noteq> [] \<and> r_category req \<noteq> [] \<and> r_description req \<noteq> []
      \<and> r_latitude req \<noteq> None \<and> r_longitude req \<noteq> None)"

definition remote_scan :: "env \<Rightarrow> request \<Rightarrow> GeminiImageScan option" where
  "remote_scan e req = scanWithGeminiIfAvailable e (trim (r_photoUrl req)) (r_description req)"

definition ai_flag :: "env \<Rightarrow> request \<Rightarrow> bool" where
  "ai_flag e req =
     (case remote_scan e req of Some g \<Rightarrow> g_isLikelyAiGenerated g | None \<Rightarrow> False)"

definition duplicate_of :: "store \<Rightarrow> request \<Rightarrow> complaint option" where
  "duplicate_of db req = find_duplicate db (imageHash (r_photoUrl req))"

definition open_match :: "store \<Rightarrow> request \<Rightarrow> bool" where
  "open_match db req =
     (case duplicate_of db req of Some d \<Rightarrow> \<not> isResolvedStatus (c_status d) | None \<Rightarrow> False)"

definition stale_match :: "store \<Rightarrow> request \<Rightarrow> bool" where
  "stale_match db req =
     (case duplicate_of db req of Some d \<Rightarrow> isResolvedStatus (c_status d) | None \<Rightarrow> False)"

definition spam_flag :: "env \<Rightarrow> store \<Rightarrow> request \<Rightarrow> bool" where
  "spam_flag e db req =
     (fst (detectSpamSignals db (clock e) (r_userId req) (r_description req))
      \<or> (case remote_scan e req of Some g \<Rightarrow> g_isSpam g | None \<Rightarrow> False)
      \<or> stale_match db req)"

text \<open>
  The classifier's verdict: the remote one when it answered, the text classifier's
  otherwise.
\<close>

definition classification :: "env \<Rightarrow> request \<Rightarrow> string \<times> real" where
  "classification e req =
     (case remote_scan e req of
        Some g \<Rightarrow> (g_problemCategory g, g_categoryConfidence g)
      | None \<Rightarrow> classifyFromText (r_description req) (r_category req))"

definition moderation_of :: "env \<Rightarrow> store \<Rightarrow> request \<Rightarrow> ImageModerationResult" where
  "moderation_of e db req =
     runImageModeration e db (r_userId req) (trim (r_photoUrl req))
       (r_description req) (r_category req)"

text \<open>The store accepts the writes of one submission: fresh identifiers, no fault.\<close>

definition store_accepts :: "env \<Rightarrow> store \<Rightarrow> bool" where
  "store_accepts e db =
     (\<not> complaint_insert_fault e
      \<and> uid_CMP e \<notin> set (map c_id (complaints db))
      \<and> uid_NTF e \<notin> set (map n_id (notifications db)))"

section \<open>Named outcomes\<close>

definition authenticity_failure :: "string \<Rightarrow> response" where
  "authenticity_failure reason =
     Unprocessable ''Uploaded image appears AI-generated. Please upload a real issue photo.''
       reason"

definition duplicate_conflict :: "string \<times> string \<Rightarrow> response" where
  "duplicate_conflict d = Conflict ''Problem already reported and not resolved yet.'' d"

definition spam_failure :: "string \<Rightarrow> response" where
  "spam_failure reason =
     Unprocessable ''Upload flagged as spam. Please provide a valid civic issue report.''
       reason"

definition generic_failure :: response where
  "generic_failure = ServerError ''Failed to create complaint''"

text \<open>The complaint of a 201 answer, if it is one.\<close>

definition created_row :: "response \<times> store \<Rightarrow> complaint option" where
  "created_row r = (case fst r of Created row \<Rightarrow> Some row | _ \<Rightarrow> None)"

section \<open>Example submissions\<close>

text \<open>
  A store with the seeded officers and no complaints, replies from outside in which the
  remote classifier is not configured and the geocoder fails, and two requests from inside
  the Pushpak Colony rectangle: one with the description "test test test", one reporting a
  burst water pipe.
\<close>

definition db0 :: store where
  "db0 = \<lparr>complaints = [], notifications = [], officers = seed_officers\<rparr>"

definition env0 :: env where
  "env0 = \<lparr>uid_CMP = ''CMP-1a2b3c4d'', uid_NTF = ''NTF-5e6f7a8b'', clock = 1000000,
           GEMINI_API_KEY = False, gemini_reply = None, geocode_reply = None,
           complaint_insert_fault = False\<rparr>"

definition req_spam :: request where
  "req_spam = \<lparr>r_userId = ''USR-1'', r_category = ''Garbage'',
               r_description = ''test test test'', r_photoUrl = [],
               r_latitude = Some 20.88, r_longitude = Some 77.74\<rparr>"

definition req_ok :: request where
  "req_ok = \<lparr>r_userId = ''USR-1'', r_category = ''Water'',
             r_description = ''Major pipe burst flooding the street'', r_photoUrl = [],
             r_latitude = Some 20.88, r_longitude = Some 77.74\<rparr>"

text \<open>
  A submission with a photo, answered by a remote classifier that names the category Road
  and leaves the confidence out; the same with a guess of Water at confidence 0.4.
\<close>

definition env_gem :: env where
  "env_gem = env0\<lparr>GEMINI_API_KEY := True,
                  gemini_reply := Some \<lparr>j_isLikelyAiGenerated = False, j_aiGeneratedReason = [],
                                         j_isSpam = False, j_spamReason = [],
                                         j_problemCategory = ''Road'',
                                         j_categoryConfidence = JUndefined\<rparr>\<rparr>"

definition env_low :: env where
  "env_low = env0\<lparr>GEMINI_API_KEY := True,
                  gemini_reply := Some \<lparr>j_isLikelyAiGenerated = False, j_aiGeneratedReason = [],
                                         j_isSpam = False, j_spamReason = [],
                                         j_problemCategory = ''Water'',
                                         j_categoryConfidence = JNum 0.4\<rparr>\<rparr>"

definition req_photo :: request where
  "req_photo = \<lparr>r_userId = ''USR-1'', r_category = ''Garbage'',
                r_description = ''Broken thing near the market'',
                r_photoUrl = ''data:image/png;base64,QUJD'',
                r_latitude = Some 20.88, r_longitude = Some 77.74\<rparr>"

text \<open>
  A store that already holds one complaint with the fingerprint of the example photo,
  closed by the administrator.
\<close>

definition old_complaint :: complaint where
  "old_complaint =
     \<lparr>c_id = ''CMP-00000001'', c_userId = ''USR-2'', c_category = ''Road'',
      c_description = ''Pothole on the main road'',
      c_photoUrl = ''data:image/png;base64,QUJD'',
      c_latitude = 20.91, c_longitude = 77.75, c_priority = ''High'', c_status = ''Closed'',
      c_workerName = Some ''Ayesha Khan'', c_area = ''Unknown'', c_city = ''Amravati'',
      c_state = ''Maharashtra'', c_fullAddress = ''Unknown'',
      c_ward = ward_name ''Rajapeth Zone'', c_division = ''Zone-2'', c_department = ''Road'',
      c_assignedOfficerId = Some ''OFF-002'', c_assignedOfficerName = Some ''Ayesha Khan'',
      c_imageHash = Some (sha256_hex ''QUJD''),
      c_moderationFlags = (''heuristic'', False, False, False),
      c_aiGeneratedFlag = False, c_spamFlag = False, c_duplicateFlag = False,
      c_classifiedCategory = ''Road'', c_classificationConfidence = 0.75,
      c_createdAt = 900000\<rparr>"

definition db_stale :: store where
  "db_stale = db0\<lparr>complaints := [old_complaint]\<rparr>"

text \<open>
  The store raising on the complaint INSERT; a geocoder that answers with the suburb
  Rajapeth; a request from a place outside the four rectangles.
\<close>

definition env_fault :: env where
  "env_fault = env0\<lparr>complaint_insert_fault := True\<rparr>"

definition env_geo :: env where
  "env_geo = env0\<lparr>geocode_reply :=
       Some \<lparr>display_name = ''Rajapeth, Amravati, Maharashtra, India'',
             a_suburb = ''Rajapeth'', a_neighbourhood = [], a_village = [], a_town = [],
             a_city_district = [], a_city = ''Amravati'', a_district = ''Amravati'',
             a_municipality = [], a_county = [], a_state_district = [],
             a_state = ''Maharashtra''\<rparr>\<rparr>"

definition req_out :: request where
  "req_out = req_ok\<lparr>r_latitude := Some 20.95, r_longitude := Some 77.70\<rparr>"

text \<open>
  Two ways to send the one-byte content 0x41 as an image data URL, with and without the
  base64 padding, and one picture sent twice with different MIME types, line breaks and
  surrounding blanks.
\<close>

definition photo_padded :: string where
  "photo_padded = ''data:image/png;base64,QQ==''"

definition photo_unpadded :: string where
  "photo_unpadded = ''data:image/png;base64,QQ''"

definition photo_png :: string where
  "photo_png = ''data:image/png;base64,QUJD''"

definition photo_jpeg_wrapped :: string where
  "photo_jpeg_wrapped =
     ''  data:image/jpeg;base64,QU'' @ [CHR 0x0D, CHR 0x0A] @ ''JD'' @ [CHR 0x0A]"

text \<open>A store in which the identifier that \<open>uid("CMP")\<close> is about to return is taken.\<close>

definition db_collide :: store where
  "db_collide = db0\<lparr>complaints := [old_complaint\<lparr>c_id := uid_CMP env0\<rparr>]\<rparr>"

text \<open>
  The remote classifier naming Road with the confidence \<open>null\<close>, with the string "1.5", and
  with the word "high".
\<close>

definition reply_with :: "json \<Rightarrow> gemini_json" where
  "reply_with v =
     \<lparr>j_isLikelyAiGenerated = False, j_aiGeneratedReason = [], j_isSpam = False,
      j_spamReason = [], j_problemCategory = ''Road'', j_categoryConfidence = v\<rparr>"

definition env_null :: env where
  "env_null = env0\<lparr>GEMINI_API_KEY := True, gemini_reply := Some (reply_with JNull)\<rparr>"

definition env_str :: env where
  "env_str = env0\<lparr>GEMINI_API_KEY := True, gemini_reply := Some (reply_with (JStr ''1.5''))\<rparr>"

definition env_word :: env where
  "env_word = env0\<lparr>GEMINI_API_KEY := True, gemini_reply := Some (reply_with (JStr ''high''))\<rparr>"

section \<open>Facts about strings\<close>

lemma str_includes_sublist: "str_includes s k \<longleftrightarrow> sublist k s"
  by (induction s) (auto simp: sublist_Cons_right)

lemma assignPriority_high: "spec_high c d \<Longrightarrow> assignPriority c d = ''High''"
  by (auto simp: spec_high_def spec_high_rules_def assignPriority_def Let_def
      str_includes_sublist)

lemma assignPriority_low:
  "\<not> spec_high c d \<Longrightarrow> spec_low d \<Longrightarrow> assignPriority c d = ''Low''"
  by (simp add: spec_high_def spec_high_rules_def spec_low_def spec_low_keywords_def
      assignPriority_def lowKeywords_def Let_def str_includes_sublist)

lemma assignPriority_medium:
  "\<not> spec_high c d \<Longrightarrow> \<not> spec_low d \<Longrightarrow> assignPriority c d = ''Medium''"
  by (simp add: spec_high_def spec_high_rules_def spec_low_def spec_low_keywords_def
      assignPriority_def lowKeywords_def Let_def str_includes_sublist)

text \<open>Unfolding sets for evaluating strings and the digest on concrete inputs.\<close>

lemmas string_eval =
  toLowerCase_def lower_char_def trim_def is_space_def test_any_def

lemmas sha_eval =
  rotr_def shr_def not32_def add32_def Ch_def Maj_def bsig0_def bsig1_def ssig0_def ssig1_def

section \<open>Facts about the pipeline\<close>

subsection \<open>Trimming twice\<close>

lemma dropWhile_strip_end:
  "dropWhile P (rev (dropWhile P (rev (dropWhile P s)))) = rev (dropWhile P (rev (dropWhile P s)))"
proof -
  define t where "t = dropWhile P s"
  define u where "u = rev (dropWhile P (rev t))"
  have split: "t = u @ rev (takeWhile P (rev t))"
    unfolding u_def by (metis rev_append rev_rev_ident takeWhile_dropWhile_id)
  have "dropWhile P u = u"
  proof (cases u)
    case Nil
    then show ?thesis by simp
  next
    case (Cons x xs)
    with split have "t \<noteq> []" and "hd t = x"
      by (metis Nil_is_append_conv list.distinct(1), metis hd_append2 list.distinct(1) list.sel(1))
    then have "\<not> P x"
      unfolding t_def by (metis hd_dropWhile)
    with Cons show ?thesis by simp
  qed
  then show ?thesis by (simp add: u_def t_def)
qed

lemma trim_idem: "trim (trim s) = trim s"
  by (simp add: trim_def dropWhile_strip_end)

lemma hash_input_trim: "hash_input (trim p) = hash_input p"
  by (simp add: hash_input_def trim_idem)

lemma imageHash_trim: "imageHash (trim p) = imageHash p"
  by (simp add: imageHash_def hash_input_trim)

subsection \<open>The moderation result in terms of the signals\<close>

lemma normalizeCategory_nonempty: "normalizeCategory v \<noteq> []"
  by (simp add: normalizeCategory_def Let_def)

lemma newest_mem: "newest xs = Some d \<Longrightarrow> d \<in> set xs"
  by (induction xs arbitrary: d) (auto split: option.splits if_splits)

lemma newest_None: "newest xs = None \<longleftrightarrow> xs = []"
  by (induction xs) (auto split: option.splits)

lemma scan_category_nonempty:
  "scanWithGeminiIfAvailable e p d = Some g \<Longrightarrow> g_problemCategory g \<noteq> []"
  by (auto simp: scanWithGeminiIfAvailable_def normalizeCategory_nonempty
      split: if_splits option.splits)

lemma m_ai: "m_isLikelyAiGenerated (moderation_of e db req) = ai_flag e req"
  by (simp add: moderation_of_def runImageModeration_def Let_def ai_flag_def remote_scan_def
      trim_idem)

lemma m_spam: "m_isSpam (moderation_of e db req) = spam_flag e db req"
  by (simp add: moderation_of_def runImageModeration_def Let_def spam_flag_def remote_scan_def
      stale_match_def duplicate_of_def trim_idem imageHash_trim)

lemma m_open:
  "open_duplicate (moderation_of e db req) =
     (case duplicate_of db req of
        Some d \<Rightarrow> if isResolvedStatus (c_status d) then None else Some (c_id d, c_status d)
      | None \<Rightarrow> None)"
  by (simp add: moderation_of_def runImageModeration_def Let_def open_duplicate_def
      duplicate_of_def imageHash_trim split: option.splits)

lemma m_classification:
  "(m_classifiedCategory (moderation_of e db req), m_classificationConfidence (moderation_of e db req))
     = classification e req"
  by (auto simp: moderation_of_def runImageModeration_def Let_def classification_def
      remote_scan_def trim_idem js_or_def scan_category_nonempty split: option.splits)

lemma post_valid:
  assumes "valid_request req" "r_latitude req = Some lat" "r_longitude req = Some lon"
  shows "post_complaints e req db =
     (if ai_flag e req
      then (Unprocessable
              ''Uploaded image appears AI-generated. Please upload a real issue photo.''
              (js_or (m_aiGeneratedReason (moderation_of e db req))
                     ''Image authenticity check failed.''), db)
      else (case open_duplicate (moderation_of e db req) of
              Some d \<Rightarrow> (Conflict ''Problem already reported and not resolved yet.'' d, db)
            | None \<Rightarrow>
                if spam_flag e db req
                then (Unprocessable
                        ''Upload flagged as spam. Please provide a valid civic issue report.''
                        (js_or (m_spamReason (moderation_of e db req)) ''Spam signal detected.''),
                      db)
                else persist e db (build_complaint e db req lat lon (moderation_of e db req))))"
  using assms
  unfolding post_complaints_def valid_request_def Let_def moderation_of_def [symmetric]
  by (simp add: m_ai m_spam)


subsection \<open>Unfolding for evaluation\<close>

lemmas handler_eval =
  post_complaints_def runImageModeration_def imageHash_def hash_input_def
  parseImageDataUrl_def find_duplicate_def detectSpamSignals_def spam_reasons_def
  repeatedByUser_def sql_trim_def letter_run_at_def test_test_at_def is_letter_def
  classifyFromText_def normalizeCategory_def isResolvedStatus_def
  scanWithGeminiIfAvailable_def clamp_confidence_def open_duplicate_def
  number_of_real_def StringToNumber_def str_decimal_def unsigned_decimal_def scale10_def
  exponent_part_def signed_digits_def non_decimal_def digits_value_def digit_value_def
  is_digit_def
  classifiedCategory_def build_complaint_def locate_def reverseGeocode_def
  fallback_location_def mapToAmravatiWard_def mapWardToDivision_def ward_name_def en_dash_def
  pickOfficerForWardOrDivision_def seed_officers_def persist_def notifyAdminAssignment_def
  insert_complaint_def assignPriority_def lowKeywords_def js_or_def
  is_alnum_def is_mime_char_def is_b64_char_def
  toLowerCase_def lower_char_def trim_def is_space_def test_any_def Let_def

lemmas signal_eval =
  valid_request_def remote_scan_def ai_flag_def duplicate_of_def open_match_def
  stale_match_def spam_flag_def classification_def moderation_of_def store_accepts_def



subsection \<open>What the handler returns\<close>

lemma persist_outcome:
  "fst (persist e db row) = Created row \<or> fst (persist e db row) = generic_failure"
  by (simp add: persist_def generic_failure_def split: option.splits sum.splits)

lemma open_match_duplicate:
  "open_match db req \<Longrightarrow>
     \<exists>d. duplicate_of db req = Some d
          \<and> open_duplicate (moderation_of e db req) = Some (c_id d, c_status d)"
  by (auto simp: open_match_def m_open split: option.splits)

lemma not_open_match:
  "\<not> open_match db req \<Longrightarrow> open_duplicate (moderation_of e db req) = None"
  by (auto simp: open_match_def m_open split: option.splits)

lemma persist_created: "persist e db r = (Created row, db') \<Longrightarrow> r = row"
  by (auto simp: persist_def split: option.splits sum.splits if_splits)

lemma persist_created_mem: "persist e db r = (Created row, db') \<Longrightarrow> row \<in> set (complaints db')"
  by (auto simp: persist_def insert_complaint_def split: option.splits sum.splits if_splits)

lemma post_created:
  assumes "post_complaints e req db = (Created row, db')"
  shows "\<exists>lat lon. r_latitude req = Some lat \<and> r_longitude req = Some lon
           \<and> row = build_complaint e db req lat lon (moderation_of e db req)
           \<and> persist e db row = (Created row, db')"
proof -
  from assms have v: "valid_request req"
    by (auto simp: post_complaints_def valid_request_def split: if_splits option.splits)
  then obtain lat lon where ll: "r_latitude req = Some lat" "r_longitude req = Some lon"
    by (auto simp: valid_request_def)
  from assms have p: "persist e db (build_complaint e db req lat lon (moderation_of e db req))
                     = (Created row, db')"
    unfolding post_valid [OF v ll]
    by (auto simp: split: if_splits option.splits)
  from persist_created [OF p] p ll show ?thesis by auto
qed

lemma m_category: "m_classifiedCategory (moderation_of e db req) = fst (classification e req)"
  using m_classification [of e db req] by (metis fst_conv)

lemma m_confidence:
  "m_classificationConfidence (moderation_of e db req) = snd (classification e req)"
  using m_classification [of e db req] by (metis snd_conv)

lemma build_category:
  "c_category (build_complaint e db req lat lon (moderation_of e db req)) =
     (if 0.6 \<le> snd (classification e req) then fst (classification e req)
      else normalizeCategory (r_category req))"
  by (simp add: build_complaint_def Let_def classifiedCategory_def m_category m_confidence)

lemma clamp_not_finite: "\<not> isFinite x \<Longrightarrow> clamp_confidence x = 0.6"
  by (cases x) (simp_all add: clamp_confidence_def)

lemma remote_scan_Some:
  assumes "GEMINI_API_KEY e" "parseImageDataUrl (r_photoUrl req) \<noteq> None"
    "gemini_reply e = Some j"
  shows "\<exists>g. remote_scan e req = Some g
           \<and> g_problemCategory g = normalizeCategory (j_problemCategory j)
           \<and> g_categoryConfidence g = clamp_confidence (js_Number (j_categoryConfidence j))"
proof -
  have "parseImageDataUrl (trim (r_photoUrl req)) = parseImageDataUrl (r_photoUrl req)"
    by (simp add: parseImageDataUrl_def trim_idem)
  with assms show ?thesis
    by (simp add: remote_scan_def scanWithGeminiIfAvailable_def)
qed

subsection \<open>Substrings survive trimming and joining\<close>

lemma sublist_dropWhile:
  assumes "sublist k s" "k \<noteq> []" "\<not> P (hd k)"
  shows "sublist k (dropWhile P s)"
proof -
  from assms(1) obtain ps ss where s: "s = ps @ k @ ss"
    by (auto simp: sublist_def)
  from assms(2,3) obtain c k' where k: "k = c # k'" "\<not> P c"
    by (cases k) auto
  show ?thesis
  proof (cases "\<forall>x\<in>set ps. P x")
    case True
    then have "dropWhile P s = k @ ss"
      by (simp add: s k)
    then show ?thesis by simp
  next
    case False
    then obtain x where "x \<in> set ps" "\<not> P x" by blast
    then have "dropWhile P s = dropWhile P ps @ k @ ss"
      by (simp add: s dropWhile_append1)
    then show ?thesis by (simp add: sublist_def) blast
  qed
qed

lemma sublist_trim:
  assumes "sublist k s" "k \<noteq> []" "\<not> is_space (hd k)" "\<not> is_space (last k)"
  shows "sublist k (trim s)"
proof -
  have "sublist k (dropWhile is_space s)"
    using assms(1-3) by (rule sublist_dropWhile)
  then have "sublist (rev k) (rev (dropWhile is_space s))"
    by (simp add: sublist_rev)
  moreover have "rev k \<noteq> []" "\<not> is_space (hd (rev k))"
    using assms(2,4) by (simp_all add: hd_rev)
  ultimately have "sublist (rev k) (dropWhile is_space (rev (dropWhile is_space s)))"
    by (rule sublist_dropWhile)
  then have "sublist (rev (rev k)) (rev (dropWhile is_space (rev (dropWhile is_space s))))"
    by (simp only: sublist_rev)
  then show ?thesis by (simp add: trim_def)
qed

lemma sublist_join: "x \<in> set xs \<Longrightarrow> sublist x (join sep xs)"
proof (induction sep xs rule: join.induct)
  case (1 sep)
  then show ?case by simp
next
  case (2 sep y)
  then show ?case by simp
next
  case (3 sep y z zs)
  show ?case
  proof (cases "x = y")
    case True
    then show ?thesis by (simp add: sublist_def) (metis append_Nil)
  next
    case False
    with 3 have "sublist x (join sep (z # zs))" by simp
    then show ?thesis
      by (simp add: sublist_def) (metis append.assoc)
  qed
qed

subsection \<open>Stale duplicates\<close>

lemma duplicate_of_resolved:
  assumes "imageHash (r_photoUrl req) = Some h"
    "\<exists>r\<in>set (complaints db). c_imageHash r = Some h"
    "\<forall>r\<in>set (complaints db). c_imageHash r = Some h \<longrightarrow> isResolvedStatus (c_status r)"
  shows "\<exists>d. duplicate_of db req = Some d \<and> d \<in> set (complaints db)
             \<and> c_imageHash d = Some h \<and> isResolvedStatus (c_status d)"
proof -
  let ?m = "filter (\<lambda>r. c_imageHash r = Some h) (complaints db)"
  from assms(2) have "?m \<noteq> []"
    by (auto simp: filter_empty_conv)
  then obtain d where d: "newest ?m = Some d"
    using newest_None [of ?m] by (cases "newest ?m") auto
  from newest_mem [OF d] have "d \<in> set (complaints db)" "c_imageHash d = Some h"
    by auto
  with assms(1,3) d show ?thesis
    by (auto simp: duplicate_of_def find_duplicate_def)
qed

lemma stale_reason_in_spamReason:
  assumes "duplicate_of db req = Some d" "isResolvedStatus (c_status d)"
  shows "sublist (stale_reason d) (m_spamReason (moderation_of e db req))"
proof -
  have ne: "stale_reason d \<noteq> []" and h: "\<not> is_space (hd (stale_reason d))"
    and l: "\<not> is_space (last (stale_reason d))"
    by (simp_all add: stale_reason_def is_space_def)
  from assms have dup: "find_duplicate db (imageHash (trim (r_photoUrl req))) = Some d"
    by (simp add: duplicate_of_def imageHash_trim)
  let ?A = "snd (detectSpamSignals db (clock e) (r_userId req) (r_description req))"
  let ?B = "case scanWithGeminiIfAvailable e (trim (trim (r_photoUrl req))) (r_description req)
            of Some g \<Rightarrow> g_spamReason g | None \<Rightarrow> []"
  let ?L = "filter (\<lambda>x. x \<noteq> []) [?A, ?B, stale_reason d]"
  have eq: "m_spamReason (moderation_of e db req) = trim (join '' '' ?L)"
    unfolding moderation_of_def runImageModeration_def Let_def dup stale_reason_def
    using assms(2) by simp
  have "stale_reason d \<in> set ?L"
    using ne by simp
  then have "sublist (stale_reason d) (join '' '' ?L)"
    by (rule sublist_join)
  then have "sublist (stale_reason d) (trim (join '' '' ?L))"
    using ne h l by (rule sublist_trim)
  then show ?thesis
    by (simp only: eq)
qed

subsection \<open>Persisting and routing\<close>

lemma persist_accepts:
  assumes "store_accepts e db" "c_id row = uid_CMP e"
  shows "\<exists>db'. persist e db row = (Created row, db')"
  using assms
  by (auto simp: persist_def store_accepts_def notifyAdminAssignment_def
      insert_complaint_def Let_def split: option.splits)

lemma build_id: "c_id (build_complaint e db req lat lon m) = uid_CMP e"
  by (simp add: build_complaint_def Let_def)

lemma build_ward:
  "c_ward (build_complaint e db req lat lon m) =
     mapToAmravatiWard lat lon (Some (l_ward (locate e lat lon)))"
  by (simp add: build_complaint_def Let_def)

lemma build_division:
  "c_division (build_complaint e db req lat lon m) =
     mapWardToDivision (mapToAmravatiWard lat lon (Some (l_ward (locate e lat lon))))"
  by (simp add: build_complaint_def Let_def)

lemma build_coords:
  "c_latitude (build_complaint e db req lat lon m) = lat"
  "c_longitude (build_complaint e db req lat lon m) = lon"
  by (simp_all add: build_complaint_def Let_def)

lemma build_location:
  "c_area (build_complaint e db req lat lon m) = l_area (locate e lat lon)"
  "c_city (build_complaint e db req lat lon m) = l_city (locate e lat lon)"
  "c_state (build_complaint e db req lat lon m) = l_state (locate e lat lon)"
  "c_fullAddress (build_complaint e db req lat lon m) = l_fullAddress (locate e lat lon)"
  by (simp_all add: build_complaint_def Let_def)

lemma locate_failure: "geocode_reply e = None \<Longrightarrow> locate e lat lon = fallback_location"
  by (simp add: locate_def reverseGeocode_def)

lemma ward_of_unknown: "mapToAmravatiWard lat lon (Some ''Unknown'') \<in> set fixed_wards"
  by (simp add: mapToAmravatiWard_def fixed_wards_def)

lemma ward_name_nonempty: "ward_name z \<noteq> []"
  by (simp add: ward_name_def)

lemma ward_in_zone:
  "in_zone lat lon \<Longrightarrow> mapToAmravatiWard lat lon h1 = mapToAmravatiWard lat lon h2"
  by (auto simp: in_zone_def mapToAmravatiWard_def)

lemma created_ward:
  assumes "post_complaints e req db = (Created row, db')"
  shows "r_latitude req = Some (c_latitude row) \<and> r_longitude req = Some (c_longitude row)
       \<and> c_ward row = mapToAmravatiWard (c_latitude row) (c_longitude row)
                         (Some (l_ward (locate e (c_latitude row) (c_longitude row))))
       \<and> c_division row = mapWardToDivision (c_ward row)"
proof -
  from post_created [OF assms] obtain lat lon where
    ll: "r_latitude req = Some lat" "r_longitude req = Some lon"
    and r: "row = build_complaint e db req lat lon (moderation_of e db req)"
    by blast
  show ?thesis
    by (simp add: r ll build_coords build_ward build_division)
qed

subsection \<open>The repeated-letters rule\<close>

lemma any_suffix_iff: "any_suffix P s \<longleftrightarrow> (\<exists>ps ss. s = ps @ ss \<and> P ss)"
proof (induction s)
  case Nil
  then show ?case by simp
next
  case (Cons c cs)
  show ?case
  proof
    assume "any_suffix P (c # cs)"
    then consider "P (c # cs)" | "any_suffix P cs" by auto
    then show "\<exists>ps ss. c # cs = ps @ ss \<and> P ss"
    proof cases
      case 1
      then show ?thesis by (metis append_Nil)
    next
      case 2
      with Cons obtain ps ss where "cs = ps @ ss" "P ss" by blast
      then show ?thesis by (metis append_Cons)
    qed
  next
    assume "\<exists>ps ss. c # cs = ps @ ss \<and> P ss"
    then obtain ps ss where s: "c # cs = ps @ ss" "P ss" by blast
    show "any_suffix P (c # cs)"
    proof (cases ps)
      case Nil
      with s have "P (c # cs)" by simp
      then show ?thesis by simp
    next
      case (Cons p ps')
      with s have "cs = ps' @ ss" by simp
      with s(2) Cons.IH show ?thesis by auto
    qed
  qed
qed

lemma lower_char_cases:
  "lower_char c = c \<or> (is_letter c \<and> is_letter (lower_char c))"
  by (auto simp: lower_char_def is_letter_def split: option.splits if_splits)

lemma is_letter_not_space: "is_letter c \<Longrightarrow> \<not> is_space c"
  by (auto simp: is_letter_def is_space_def)

lemma is_space_lower_char: "is_space (lower_char c) = is_space c"
  using lower_char_cases [of c] is_letter_not_space by metis

lemma is_letter_lower_char: "is_letter c \<Longrightarrow> is_letter (lower_char c)"
  using lower_char_cases [of c] by metis

lemma trim_toLowerCase: "toLowerCase (trim s) = trim (toLowerCase s)"
proof -
  have c: "is_space \<circ> lower_char = is_space"
    by (rule ext) (simp add: is_space_lower_char)
  show ?thesis
    by (simp add: trim_def toLowerCase_def dropWhile_map rev_map c)
qed

lemma sublist_toLowerCase: "sublist k s \<Longrightarrow> sublist (toLowerCase k) (toLowerCase s)"
  unfolding sublist_def toLowerCase_def by (metis map_append)

lemma letter_run_found:
  assumes "is_letter c" "sublist (replicate 7 c) s"
  shows "any_suffix letter_run_at s"
proof -
  from assms(2) obtain ps ss where s: "s = ps @ replicate 7 c @ ss"
    by (auto simp: sublist_def)
  have r: "replicate 7 c = c # [c, c, c, c, c, c]"
    by (simp add: numeral_eq_Suc)
  have "letter_run_at (replicate 7 c @ ss)"
    unfolding r using assms(1) by (simp add: letter_run_at_def)
  with s show ?thesis
    unfolding any_suffix_iff by blast
qed

lemma repeated_rule_fires:
  assumes "any_suffix letter_run_at (toLowerCase (trim description))"
  shows "repeated_reason \<in> set (spam_reasons db now userId description)"
  using assms by (simp add: spam_reasons_def Let_def repeated_reason_def)

subsection \<open>Digest values\<close>

lemma replicate_numeral: "replicate (numeral k) x = x # replicate (pred_numeral k) x"
  by (simp add: numeral_eq_Suc)

lemma sha256_abc:
  "sha256_hex ''abc'' = ''ba7816bf8f01cfea414140de5dae2223b00361a396177a9cb410ff61f20015ad''"
proof -
  have p: "chunks (be32 (pad (map of_char ''abc''))) =
             [[1633837952, 0, 0, 0, 0, 0, 0, 0, 0, 0, 0, 0, 0, 0, 0, 24]]"
    by (simp add: pad_def be64_bytes_def replicate_numeral)
  have c: "compress H256 [1633837952, 0, 0, 0, 0, 0, 0, 0, 0, 0, 0, 0, 0, 0, 0, 24] =
             [3128432319, 2399260650, 1094795486, 1571693091,
              2953011619, 2518121116, 3021012833, 4060091821]"
    by (simp add: compress_def H256_def K256_def sha_eval Let_def)
  show ?thesis
    unfolding sha256_hex_def p by (simp add: c hex32_def)
qed

lemma sha256_padded:
  "sha256_hex ''QQ=='' = ''ee0b13692453f0f83c3c9bfa207ef7a6b1927f6dedaf5d900239e1b17762b3ea''"
proof -
  have p: "chunks (be32 (pad (map of_char ''QQ==''))) =
             [[1364278589, 2147483648, 0, 0, 0, 0, 0, 0, 0, 0, 0, 0, 0, 0, 0, 32]]"
    by (simp add: pad_def be64_bytes_def replicate_numeral)
  have c: "compress H256 [1364278589, 2147483648, 0, 0, 0, 0, 0, 0, 0, 0, 0, 0, 0, 0, 0, 32] =
             [3993703273, 609480952, 1010605050, 545191846,
              2979168109, 3987692944, 37347761, 2002957290]"
    by (simp add: compress_def H256_def K256_def sha_eval Let_def)
  show ?thesis
    unfolding sha256_hex_def p by (simp add: c hex32_def)
qed

lemma sha256_unpadded:
  "sha256_hex ''QQ'' = ''2f04a3aa051f1f60d695f6c44c0c3d383973dfd446ace8962664a76bb10e31a8''"
proof -
  have p: "chunks (be32 (pad (map of_char ''QQ''))) =
             [[1364295680, 0, 0, 0, 0, 0, 0, 0, 0, 0, 0, 0, 0, 0, 0, 16]]"
    by (simp add: pad_def be64_bytes_def replicate_numeral)
  have c: "compress H256 [1364295680, 0, 0, 0, 0, 0, 0, 0, 0, 0, 0, 0, 0, 0, 0, 16] =
             [788833194, 85925728, 3600152260, 1275870520,
              963895252, 1185736854, 644130667, 2970497448]"
    by (simp add: compress_def H256_def K256_def sha_eval Let_def)
  show ?thesis
    unfolding sha256_hex_def p by (simp add: c hex32_def)
qed

subsection \<open>Image data URLs\<close>

lemma trim_id:
  assumes "s \<noteq> []" "\<not> is_space (hd s)" "\<not> is_space (last s)"
  shows "trim s = s"
proof -
  from assms(1,2) have a: "dropWhile is_space s = s"
    by (cases s) auto
  from assms(1,3) have "dropWhile is_space (rev s) = rev s"
    by (cases "rev s") (auto simp: last_rev [symmetric] simp del: last_rev)
  with a show ?thesis by (simp add: trim_def)
qed

lemma parse_data_url:
  assumes "sub \<noteq> []" "list_all is_mime_char sub" "b \<noteq> []" "list_all is_b64_char b"
    "\<not> is_space (last b)"
  shows "parseImageDataUrl (''data:image/'' @ sub @ '';base64,'' @ b)
           = Some (''image/'' @ sub, filter (\<lambda>c. \<not> is_space c) b)"
proof -
  let ?u = "''data:image/'' @ sub @ '';base64,'' @ b"
  have t: "trim ?u = ?u"
    using assms(3,5) by (intro trim_id) (simp_all add: is_space_def)
  have nm: "\<not> is_mime_char CHR '';''"
    by (simp add: is_mime_char_def is_alnum_def)
  have tw: "takeWhile is_mime_char (sub @ '';base64,'' @ b) = sub"
    using assms(2) nm by (simp add: takeWhile_append2 list_all_iff)
  have dw: "dropWhile is_mime_char (sub @ '';base64,'' @ b) = '';base64,'' @ b"
    using assms(2) nm by (simp add: dropWhile_append2 list_all_iff)
  have pre: "prefix ''data:image/'' ?u"
    by simp
  have dr: "drop 11 ?u = sub @ '';base64,'' @ b"
    by simp
  show ?thesis
    unfolding parseImageDataUrl_def t Let_def dr tw dw
    using assms(1,3,4) pre by simp
qed

lemma parse_nonempty: "parseImageDataUrl p = Some x \<Longrightarrow> trim p \<noteq> []"
  by (auto simp: parseImageDataUrl_def Let_def split: if_splits)

lemma parse_trim: "parseImageDataUrl (trim p) = parseImageDataUrl p"
  by (simp add: parseImageDataUrl_def trim_idem)

lemma imageHash_data_url:
  "parseImageDataUrl p = Some (mime, d) \<Longrightarrow> imageHash p = Some (sha256_hex d)"
  using parse_nonempty [of p "(mime, d)"]
  by (simp add: imageHash_def hash_input_def Let_def parse_trim)

subsection \<open>Number(...) on JSON values\<close>

lemma js_Number_examples:
  "js_Number JNull = Finite 0"
  "js_Number (JStr []) = Finite 0"
  "js_Number (JBool False) = Finite 0"
  "js_Number (JArr []) = Finite 0"
  "js_Number JUndefined = NaN"
  "js_Number JObj = NaN"
  "js_Number (JStr ''high'') = NaN"
  "js_Number (JStr '' 12.5e-1 '') = Finite 1.25"
  "js_Number (JStr ''.5'') = Finite 0.5"
  "js_Number (JStr ''-5.'') = Finite (-5)"
  "js_Number (JStr ''0x1F'') = Finite 31"
  "js_Number (JStr ''0x'') = NaN"
  "js_Number (JStr ''1e'') = NaN"
  "js_Number (JStr ''1e999'') = PosInfinity"
  "js_Number (JStr ''-Infinity'') = NegInfinity"
  "js_Number (JNum 0.4) = Finite 0.4"
  "js_Number (JArr [JStr ''7'']) = Finite 7"
  "js_Number (JArr [JNum 1, JNum 2]) = NaN"
  by (simp_all add: handler_eval cong: let_weak_cong)

lemma clamp_finite: "clamp_confidence (Finite c) = max 0 (min 1 c)"
  by (simp add: clamp_confidence_def)

lemma created_classification:
  assumes "post_complaints e req db = (Created row, db')"
  shows "c_classificationConfidence row = snd (classification e req)
       \<and> c_category row =
           (if 0.6 \<le> snd (classification e req) then fst (classification e req)
            else normalizeCategory (r_category req))"
proof -
  from post_created [OF assms] obtain lat lon where
    r: "row = build_complaint e db req lat lon (moderation_of e db req)"
    by blast
  have "c_classificationConfidence row = snd (classification e req)"
    by (simp add: r build_complaint_def Let_def m_confidence)
  moreover have "c_category row =
           (if 0.6 \<le> snd (classification e req) then fst (classification e req)
            else normalizeCategory (r_category req))"
    unfolding r by (rule build_category)
  ultimately show ?thesis by simp
qed

section \<open>Claims\<close>

subsection \<open>C1\<close>

text \<open>
  C1.  For every submission that enters moderation the rejection policy runs in a fixed
  order: a set ai-generated flag gives the authenticity failure whatever the other signals
  are; otherwise a duplicate whose matched earlier complaint is not resolved gives the
  duplicate conflict; otherwise a set spam flag (local heuristic, remote classifier, or
  stale duplicate) gives the spam failure; otherwise the submission is accepted and goes on
  to be persisted.  A rejection leaves the store as it was.
\<close>

theorem C1_rejection_order:
  assumes "valid_request req"
  shows "(ai_flag e req \<longrightarrow>
            (\<exists>reason. post_complaints e req db = (authenticity_failure reason, db)))
       \<and> (\<not> ai_flag e req \<and> open_match db req \<longrightarrow>
            (\<exists>d. duplicate_of db req = Some d
                 \<and> post_complaints e req db = (duplicate_conflict (c_id d, c_status d), db)))
       \<and> (\<not> ai_flag e req \<and> \<not> open_match db req \<and> spam_flag e db req \<longrightarrow>
            (\<exists>reason. post_complaints e req db = (spam_failure reason, db)))
       \<and> (\<not> ai_flag e req \<and> \<not> open_match db req \<and> \<not> spam_flag e db req \<longrightarrow>
            (\<exists>row. post_complaints e req db = persist e db row
                   \<and> (fst (persist e db row) = Created row
                        \<or> fst (persist e db row) = generic_failure)))"
proof -
  from assms obtain lat lon where ll: "r_latitude req = Some lat" "r_longitude req = Some lon"
    by (auto simp: valid_request_def)
  note pv = post_valid [OF assms ll, of e db]
  have a: "ai_flag e req \<longrightarrow>
            (\<exists>reason. post_complaints e req db = (authenticity_failure reason, db))"
    by (simp add: pv authenticity_failure_def)
  have b: "\<not> ai_flag e req \<and> open_match db req \<longrightarrow>
            (\<exists>d. duplicate_of db req = Some d
                 \<and> post_complaints e req db = (duplicate_conflict (c_id d, c_status d), db))"
  proof (intro impI, elim conjE)
    assume na: "\<not> ai_flag e req" and om: "open_match db req"
    from open_match_duplicate [OF om, of e] obtain d where
      d: "duplicate_of db req = Some d"
         "open_duplicate (moderation_of e db req) = Some (c_id d, c_status d)"
      by blast
    with na show "\<exists>d. duplicate_of db req = Some d
        \<and> post_complaints e req db = (duplicate_conflict (c_id d, c_status d), db)"
      by (simp add: pv duplicate_conflict_def)
  qed
  have c: "\<not> ai_flag e req \<and> \<not> open_match db req \<and> spam_flag e db req \<longrightarrow>
            (\<exists>reason. post_complaints e req db = (spam_failure reason, db))"
    by (simp add: pv not_open_match spam_failure_def)
  have d: "\<not> ai_flag e req \<and> \<not> open_match db req \<and> \<not> spam_flag e db req \<longrightarrow>
            (\<exists>row. post_complaints e req db = persist e db row
                   \<and> (fst (persist e db row) = Created row
                        \<or> fst (persist e db row) = generic_failure))"
    using persist_outcome by (auto simp: pv not_open_match)
  from a b c d show ?thesis by blast
qed

text \<open>
  "test test test" is rejected as spam; the burst water pipe passes all three checks.
\<close>

theorem C1_rejection_order_witness:
  "valid_request req_spam
   \<and> \<not> ai_flag env0 req_spam \<and> \<not> open_match db0 req_spam \<and> spam_flag env0 db0 req_spam
   \<and> (\<exists>reason. post_complaints env0 req_spam db0 = (spam_failure reason, db0))
   \<and> valid_request req_ok
   \<and> \<not> ai_flag env0 req_ok \<and> \<not> open_match db0 req_ok \<and> \<not> spam_flag env0 db0 req_ok
   \<and> (\<exists>row. post_complaints env0 req_ok db0 = persist env0 db0 row
            \<and> (fst (persist env0 db0 row) = Created row
                 \<or> fst (persist env0 db0 row) = generic_failure))"
proof -
  have v: "valid_request req_spam" "valid_request req_ok"
    by (simp_all add: valid_request_def req_spam_def req_ok_def)
  have s: "\<not> ai_flag env0 req_spam" "\<not> open_match db0 req_spam" "spam_flag env0 db0 req_spam"
    by (simp_all add: env0_def req_spam_def db0_def handler_eval signal_eval
        cong: let_weak_cong)
  have k: "\<not> ai_flag env0 req_ok" "\<not> open_match db0 req_ok" "\<not> spam_flag env0 db0 req_ok"
    by (simp_all add: env0_def req_ok_def db0_def handler_eval signal_eval
        cong: let_weak_cong)
  from v s k C1_rejection_order [OF v(1), of env0 db0] C1_rejection_order [OF v(2), of env0 db0]
  show ?thesis by blast
qed

subsection \<open>C2\<close>

text \<open>
  C2.  The claim: when the complaint INSERT of a submission that passed moderation fails,
  the submitter receives the generic failure and nothing of the submission is in the store,
  in particular no notification that refers to the failed complaint id.  The handler on the
  burst water pipe, with the store raising on the complaint INSERT: the answer is the
  generic failure and the complaints table is unchanged, but the ASSIGNED notification that
  line 772 wrote before the INSERT stays in the store and refers to the id of the complaint
  that was never stored.  The same happens when the INSERT fails because the random id
  collides with a stored one.
\<close>

theorem C2_notification_survives_failed_insert:
  "fst (post_complaints env_fault req_ok db0) = generic_failure
   \<and> complaints (snd (post_complaints env_fault req_ok db0)) = complaints db0
   \<and> notifications db0 = []
   \<and> map (\<lambda>n. (n_complaintId n, n_type n))
         (notifications (snd (post_complaints env_fault req_ok db0)))
       = [(uid_CMP env_fault, ''ASSIGNED'')]
   \<and> uid_CMP env_fault \<notin> set (map c_id (complaints (snd (post_complaints env_fault req_ok db0))))
   \<and> fst (post_complaints env0 req_ok db_collide) = generic_failure
   \<and> complaints (snd (post_complaints env0 req_ok db_collide)) = complaints db_collide
   \<and> notifications db_collide = []
   \<and> map (\<lambda>n. (n_complaintId n, n_type n))
         (notifications (snd (post_complaints env0 req_ok db_collide)))
       = [(uid_CMP env0, ''ASSIGNED'')]"
proof -
  have a: "post_complaints env_fault req_ok db0 =
             (generic_failure,
              db0\<lparr>notifications :=
                [\<lparr>n_id = uid_NTF env0, n_complaintId = uid_CMP env0, n_type = ''ASSIGNED'',
                  n_message = ''Complaint CMP-1a2b3c4d auto-assigned to Rohit Patil (Water) in ''
                              @ ward_name ''Pushpak Colony Zone'' @ ''.'',
                  n_isRead = False, n_createdAt = clock env0\<rparr>]\<rparr>)"
    by (simp add: env_fault_def env0_def req_ok_def db0_def generic_failure_def handler_eval
        cong: let_weak_cong)
  have b: "post_complaints env0 req_ok db_collide =
             (generic_failure,
              db_collide\<lparr>notifications :=
                [\<lparr>n_id = uid_NTF env0, n_complaintId = uid_CMP env0, n_type = ''ASSIGNED'',
                  n_message = ''Complaint CMP-1a2b3c4d auto-assigned to Rohit Patil (Water) in ''
                              @ ward_name ''Pushpak Colony Zone'' @ ''.'',
                  n_isRead = False, n_createdAt = clock env0\<rparr>]\<rparr>)"
    by (simp add: db_collide_def old_complaint_def env0_def req_ok_def db0_def
        generic_failure_def handler_eval cong: let_weak_cong)
  show ?thesis
    unfolding a b by (simp add: db_collide_def db0_def env_fault_def env0_def)
qed

subsection \<open>C3\<close>

text \<open>
  C3.  Priority assignment is a function of the final category and the description alone.
  On the three inputs the specification names it returns High, Low and Medium.  For every
  input, a matching high-priority category/keyword rule gives High whether or not a
  low-priority keyword also occurs; without one, a low-priority keyword gives Low; and
  Medium is the result when neither fires.
\<close>

theorem C3_assignPriority:
  "assignPriority ''Water'' ''major pipe burst near gate'' = ''High''
   \<and> assignPriority ''Garbage'' ''minor smell'' = ''Low''
   \<and> assignPriority ''Road'' ''uneven footpath'' = ''Medium''
   \<and> (\<forall>c d. spec_high c d \<longrightarrow> assignPriority c d = ''High'')
   \<and> (\<forall>c d. \<not> spec_high c d \<and> spec_low d \<longrightarrow> assignPriority c d = ''Low'')
   \<and> (\<forall>c d. \<not> spec_high c d \<and> \<not> spec_low d \<longrightarrow> assignPriority c d = ''Medium'')"
proof -
  have "assignPriority ''Water'' ''major pipe burst near gate'' = ''High''"
    by (simp add: assignPriority_def lowKeywords_def string_eval)
  moreover have "assignPriority ''Garbage'' ''minor smell'' = ''Low''"
    by (simp add: assignPriority_def lowKeywords_def string_eval)
  moreover have "assignPriority ''Road'' ''uneven footpath'' = ''Medium''"
    by (simp add: assignPriority_def lowKeywords_def string_eval)
  ultimately show ?thesis
    using assignPriority_high assignPriority_low assignPriority_medium by blast
qed

text \<open>
  The description "minor leak" of a Water complaint carries both a high-priority and a
  low-priority keyword: the high-priority rule wins.  "small request" of a Streetlight
  complaint is Low, and "lamp is broken" is Medium.
\<close>

theorem C3_assignPriority_witness:
  "spec_high ''Water'' ''minor leak'' \<and> spec_low ''minor leak''
   \<and> assignPriority ''Water'' ''minor leak'' = ''High''
   \<and> \<not> spec_high ''Streetlight'' ''small request'' \<and> spec_low ''small request''
   \<and> assignPriority ''Streetlight'' ''small request'' = ''Low''
   \<and> \<not> spec_high ''Streetlight'' ''lamp is broken'' \<and> \<not> spec_low ''lamp is broken''
   \<and> assignPriority ''Streetlight'' ''lamp is broken'' = ''Medium''"
proof -
  have h1: "spec_high ''Water'' ''minor leak''"
    by (simp add: spec_high_def spec_high_rules_def string_eval sublist_code)
  have l1: "spec_low ''minor leak''"
    by (simp add: spec_low_def spec_low_keywords_def string_eval sublist_code)
  have h2: "\<not> spec_high ''Streetlight'' ''small request''"
    by (simp add: spec_high_def spec_high_rules_def)
  have l2: "spec_low ''small request''"
    by (simp add: spec_low_def spec_low_keywords_def string_eval sublist_code)
  have h3: "\<not> spec_high ''Streetlight'' ''lamp is broken''"
    by (simp add: spec_high_def spec_high_rules_def)
  have l3: "\<not> spec_low ''lamp is broken''"
    by (simp add: spec_low_def spec_low_keywords_def string_eval sublist_code)
  from h1 l1 h2 l2 h3 l3 show ?thesis
    using C3_assignPriority by blast
qed

subsection \<open>C4\<close>

text \<open>
  C4.  For every accepted submission the category that is persisted, and from which the
  priority is computed, is the classifier's category when the classifier's confidence is at
  least 0.6 and the normalized citizen-submitted category otherwise; a classification with
  confidence strictly below 0.6 never replaces the citizen's category.
\<close>

theorem C4_final_category:
  assumes "post_complaints e req db = (Created row, db')"
  shows "c_category row =
           (if 0.6 \<le> snd (classification e req) then fst (classification e req)
            else normalizeCategory (r_category req))
       \<and> (snd (classification e req) < 0.6 \<longrightarrow>
            c_category row = normalizeCategory (r_category req))
       \<and> c_classifiedCategory row = c_category row
       \<and> c_priority row = assignPriority (c_category row) (r_description req)
       \<and> row \<in> set (complaints db')"
proof -
  from post_created [OF assms] obtain lat lon where
    row: "row = build_complaint e db req lat lon (moderation_of e db req)"
    and p: "persist e db row = (Created row, db')"
    by blast
  have cat: "c_category row =
           (if 0.6 \<le> snd (classification e req) then fst (classification e req)
            else normalizeCategory (r_category req))"
    unfolding row by (rule build_category)
  have same: "c_classifiedCategory row = c_category row"
    by (simp add: row build_complaint_def Let_def)
  have prio: "c_priority row = assignPriority (c_category row) (r_description req)"
    by (simp add: row build_complaint_def Let_def)
  from cat same prio persist_created_mem [OF p] show ?thesis by simp
qed


text \<open>
  With the confidence left out (taken as 0.6) the remote category Road is final; with the
  remote guess Water at 0.4 the citizen's Garbage stays.
\<close>

theorem C4_final_category_witness:
  "(\<exists>row db'. post_complaints env_gem req_photo db0 = (Created row, db')
       \<and> c_category row = ''Road'' \<and> c_priority row = ''Medium'')
   \<and> classification env_gem req_photo = (''Road'', 0.6)
   \<and> (\<exists>row db'. post_complaints env_low req_photo db0 = (Created row, db')
       \<and> c_category row = ''Garbage'')
   \<and> classification env_low req_photo = (''Water'', 0.4)"
proof -
  have c1: "classification env_gem req_photo = (''Road'', 0.6)"
    by (simp add: env_gem_def env0_def req_photo_def handler_eval signal_eval
        cong: let_weak_cong)
  have c2: "classification env_low req_photo = (''Water'', 0.4)"
    by (simp add: env_low_def env0_def req_photo_def handler_eval signal_eval
        cong: let_weak_cong)
  have "\<exists>row db'. post_complaints env_gem req_photo db0 = (Created row, db')"
    by (simp add: env_gem_def env0_def req_photo_def db0_def handler_eval
        cong: let_weak_cong)
  then obtain row1 db1 where p1: "post_complaints env_gem req_photo db0 = (Created row1, db1)"
    by blast
  have "\<exists>row db'. post_complaints env_low req_photo db0 = (Created row, db')"
    by (simp add: env_low_def env0_def req_photo_def db0_def handler_eval
        cong: let_weak_cong)
  then obtain row2 db2 where p2: "post_complaints env_low req_photo db0 = (Created row2, db2)"
    by blast
  have a1: "assignPriority ''Road'' (r_description req_photo) = ''Medium''"
    by (simp add: req_photo_def assignPriority_def lowKeywords_def string_eval
        cong: let_weak_cong)
  have n: "normalizeCategory (r_category req_photo) = ''Garbage''"
    by (simp add: req_photo_def normalizeCategory_def string_eval cong: let_weak_cong)
  from C4_final_category [OF p1] c1 a1
  have "c_category row1 = ''Road''" "c_priority row1 = ''Medium''"
    by simp_all
  moreover from C4_final_category [OF p2] c2 n have "c_category row2 = ''Garbage''"
    by simp
  ultimately show ?thesis using p1 p2 c1 c2 by blast
qed

subsection \<open>C5\<close>

text \<open>
  C5, as stated: the fingerprint is a digest of the decoded binary content, so that
  byte-identical images always match.  The two data URLs below carry the same single byte
  0x41, once with base64 padding and once without; the hasher digests the base64 text, not
  the bytes, and the two fingerprints differ.
\<close>

theorem C5_counterexample:
  "parseImageDataUrl photo_padded = Some (''image/png'', ''QQ=='')
   \<and> parseImageDataUrl photo_unpadded = Some (''image/png'', ''QQ'')
   \<and> spec_base64_decode ''QQ=='' = [65]
   \<and> spec_base64_decode ''QQ'' = [65]
   \<and> imageHash photo_padded
       = Some ''ee0b13692453f0f83c3c9bfa207ef7a6b1927f6dedaf5d900239e1b17762b3ea''
   \<and> imageHash photo_unpadded
       = Some ''2f04a3aa051f1f60d695f6c44c0c3d383973dfd446ace8962664a76bb10e31a8''
   \<and> imageHash photo_padded \<noteq> imageHash photo_unpadded"
proof -
  have a: "parseImageDataUrl photo_padded = Some (''image/png'', ''QQ=='')"
    by (simp add: photo_padded_def handler_eval cong: let_weak_cong)
  have b: "parseImageDataUrl photo_unpadded = Some (''image/png'', ''QQ'')"
    by (simp add: photo_unpadded_def handler_eval cong: let_weak_cong)
  have d1: "spec_base64_decode ''QQ=='' = [65]"
    by (simp add: spec_base64_decode_def b64_value_def bits6_def upt_rec)
  have d2: "spec_base64_decode ''QQ'' = [65]"
    by (simp add: spec_base64_decode_def b64_value_def bits6_def upt_rec)
  have h1: "imageHash photo_padded
       = Some ''ee0b13692453f0f83c3c9bfa207ef7a6b1927f6dedaf5d900239e1b17762b3ea''"
    using imageHash_data_url [OF a] by (simp only: sha256_padded)
  have h2: "imageHash photo_unpadded
       = Some ''2f04a3aa051f1f60d695f6c44c0c3d383973dfd446ace8962664a76bb10e31a8''"
    using imageHash_data_url [OF b] by (simp only: sha256_unpadded)
  from a b d1 d2 h1 h2 show ?thesis by simp
qed

text \<open>
  C5, amended.  The content hasher returns no fingerprint exactly when the trimmed photo
  payload is empty.  Otherwise the fingerprint is the SHA-256 digest, in hexadecimal, of
  the payload's base64 text with its line breaks removed when the payload is a base64
  image data URL, and of the whole trimmed payload when it is not.  So two data URLs that
  carry the same base64 text always produce the same fingerprint, whatever MIME type the
  wrapper names and wherever the text is broken into lines.
\<close>

theorem C5_fingerprint:
  "(imageHash p = None \<longleftrightarrow> trim p = [])
   \<and> (\<forall>mime d. parseImageDataUrl p = Some (mime, d) \<longrightarrow> imageHash p = Some (sha256_hex d))
   \<and> (trim p \<noteq> [] \<and> parseImageDataUrl p = None \<longrightarrow> imageHash p = Some (sha256_hex (trim p)))
   \<and> (\<forall>sub b. sub \<noteq> [] \<and> list_all is_mime_char sub \<and> b \<noteq> [] \<and> list_all is_b64_char b
          \<and> \<not> is_space (last b) \<longrightarrow>
        imageHash (''data:image/'' @ sub @ '';base64,'' @ b)
          = Some (sha256_hex (filter (\<lambda>c. \<not> is_space c) b)))
   \<and> (\<forall>q m1 m2 d. parseImageDataUrl p = Some (m1, d) \<and> parseImageDataUrl q = Some (m2, d)
          \<longrightarrow> imageHash p = imageHash q)"
proof (intro conjI allI impI)
  show "imageHash p = None \<longleftrightarrow> trim p = []"
    by (simp add: imageHash_def hash_input_def Let_def split: option.splits)
next
  fix mime d
  assume "parseImageDataUrl p = Some (mime, d)"
  then show "imageHash p = Some (sha256_hex d)"
    by (rule imageHash_data_url)
next
  assume "trim p \<noteq> [] \<and> parseImageDataUrl p = None"
  then show "imageHash p = Some (sha256_hex (trim p))"
    by (simp add: imageHash_def hash_input_def Let_def parse_trim)
next
  fix sub b
  assume h: "sub \<noteq> [] \<and> list_all is_mime_char sub \<and> b \<noteq> [] \<and> list_all is_b64_char b
          \<and> \<not> is_space (last b)"
  then have "sub \<noteq> []" "list_all is_mime_char sub" "b \<noteq> []" "list_all is_b64_char b"
    "\<not> is_space (last b)"
    by simp_all
  then have "parseImageDataUrl (''data:image/'' @ sub @ '';base64,'' @ b)
           = Some (''image/'' @ sub, filter (\<lambda>c. \<not> is_space c) b)"
    by (rule parse_data_url)
  then show "imageHash (''data:image/'' @ sub @ '';base64,'' @ b)
          = Some (sha256_hex (filter (\<lambda>c. \<not> is_space c) b))"
    by (rule imageHash_data_url)
next
  fix q m1 m2 d
  assume "parseImageDataUrl p = Some (m1, d) \<and> parseImageDataUrl q = Some (m2, d)"
  then have "imageHash p = Some (sha256_hex d)" "imageHash q = Some (sha256_hex d)"
    by (simp_all add: imageHash_data_url)
  then show "imageHash p = imageHash q"
    by simp
qed

text \<open>
  The same base64 text as PNG on one line and as JPEG broken over two lines, with blanks
  around the payload: one fingerprint.  The empty payload has none, and a plain URL is
  digested as it is.
\<close>

theorem C5_fingerprint_witness:
  "parseImageDataUrl photo_png = Some (''image/png'', ''QUJD'')
   \<and> parseImageDataUrl photo_jpeg_wrapped = Some (''image/jpeg'', ''QUJD'')
   \<and> imageHash photo_png = imageHash photo_jpeg_wrapped
   \<and> imageHash photo_png = Some (sha256_hex ''QUJD'')
   \<and> trim ''   '' = [] \<and> imageHash ''   '' = None
   \<and> trim ''https://example.com/photo.jpg'' \<noteq> []
   \<and> parseImageDataUrl ''https://example.com/photo.jpg'' = None
   \<and> imageHash ''https://example.com/photo.jpg''
       = Some (sha256_hex ''https://example.com/photo.jpg'')"
proof -
  have a: "parseImageDataUrl photo_png = Some (''image/png'', ''QUJD'')"
    by (simp add: photo_png_def handler_eval cong: let_weak_cong)
  have b: "parseImageDataUrl photo_jpeg_wrapped = Some (''image/jpeg'', ''QUJD'')"
    by (simp add: photo_jpeg_wrapped_def handler_eval cong: let_weak_cong)
  have t: "trim ''   '' = []"
    by (simp add: string_eval)
  have u: "trim ''https://example.com/photo.jpg'' = ''https://example.com/photo.jpg''"
    by (simp add: string_eval)
  have n: "parseImageDataUrl ''https://example.com/photo.jpg'' = None"
    by (simp add: handler_eval cong: let_weak_cong)
  note th = C5_fingerprint [of photo_png] C5_fingerprint [of "''   ''"]
    C5_fingerprint [of "''https://example.com/photo.jpg''"]
  from th(1) a b have "imageHash photo_png = imageHash photo_jpeg_wrapped"
    "imageHash photo_png = Some (sha256_hex ''QUJD'')"
    by blast+
  moreover from th(2) t have "imageHash ''   '' = None"
    by blast
  moreover from th(3) u n have "imageHash ''https://example.com/photo.jpg''
       = Some (sha256_hex ''https://example.com/photo.jpg'')"
    by simp
  ultimately show ?thesis using a b t u n by simp
qed

subsection \<open>C6\<close>

text \<open>
  C6.  When the fingerprint of a submission matches earlier complaints and every one of
  them is in a resolved state (Resolved, Resolved (Pending Admin) or Closed), the submission
  is never answered with the duplicate conflict.  The match becomes a stale-duplicate spam
  signal instead: the spam flag is set, and unless the ai-generated flag rejects it first
  the submission is rejected as spam with a reason that names the earlier complaint.
\<close>

theorem C6_stale_duplicate:
  assumes "valid_request req" "imageHash (r_photoUrl req) = Some h"
    "\<exists>r\<in>set (complaints db). c_imageHash r = Some h"
    "\<forall>r\<in>set (complaints db). c_imageHash r = Some h \<longrightarrow> isResolvedStatus (c_status r)"
  shows "(\<forall>d. fst (post_complaints e req db) \<noteq> duplicate_conflict d)
       \<and> stale_match db req \<and> spam_flag e db req
       \<and> (\<not> ai_flag e req \<longrightarrow>
            (\<exists>d reason. d \<in> set (complaints db) \<and> c_imageHash d = Some h
                \<and> sublist (stale_reason d) reason
                \<and> post_complaints e req db = (spam_failure reason, db)))"
proof -
  from duplicate_of_resolved [OF assms(2-4)] obtain d where
    d: "duplicate_of db req = Some d" "d \<in> set (complaints db)" "c_imageHash d = Some h"
       "isResolvedStatus (c_status d)"
    by blast
  from assms(1) obtain lat lon where ll: "r_latitude req = Some lat" "r_longitude req = Some lon"
    by (auto simp: valid_request_def)
  note pv = post_valid [OF assms(1) ll, of e db]
  have st: "stale_match db req" and no: "\<not> open_match db req"
    using d by (simp_all add: stale_match_def open_match_def)
  then have sp: "spam_flag e db req"
    by (simp add: spam_flag_def)
  have od: "open_duplicate (moderation_of e db req) = None"
    using no by (rule not_open_match)
  have nc: "fst (post_complaints e req db) \<noteq> duplicate_conflict x" for x
    by (simp add: pv od sp duplicate_conflict_def)
  have sub: "sublist (stale_reason d) (m_spamReason (moderation_of e db req))"
    using d(1,4) by (rule stale_reason_in_spamReason)
  then have "m_spamReason (moderation_of e db req) \<noteq> []"
    by (auto simp: stale_reason_def)
  then have "\<not> ai_flag e req \<longrightarrow>
      post_complaints e req db = (spam_failure (m_spamReason (moderation_of e db req)), db)"
    by (simp add: pv od sp spam_failure_def js_or_def)
  with nc st sp sub d(2,3) show ?thesis by blast
qed

text \<open>
  The example photo is submitted again after its first complaint was closed: 422 with the
  stale-duplicate reason, not 409.
\<close>

theorem C6_stale_duplicate_witness:
  "valid_request req_photo
   \<and> imageHash (r_photoUrl req_photo) = Some (sha256_hex ''QUJD'')
   \<and> map (\<lambda>r. (c_imageHash r, c_status r)) (complaints db_stale)
       = [(Some (sha256_hex ''QUJD''), ''Closed'')]
   \<and> isResolvedStatus ''Closed''
   \<and> \<not> ai_flag env0 req_photo
   \<and> (\<exists>reason. sublist (stale_reason old_complaint) reason
         \<and> post_complaints env0 req_photo db_stale = (spam_failure reason, db_stale))"
proof -
  have v: "valid_request req_photo"
    by (simp add: valid_request_def req_photo_def)
  have h: "imageHash (r_photoUrl req_photo) = Some (sha256_hex ''QUJD'')"
    by (simp add: req_photo_def handler_eval cong: let_weak_cong)
  have ex: "\<exists>r\<in>set (complaints db_stale). c_imageHash r = Some (sha256_hex ''QUJD'')"
    by (simp add: db_stale_def db0_def old_complaint_def)
  have al: "\<forall>r\<in>set (complaints db_stale).
         c_imageHash r = Some (sha256_hex ''QUJD'') \<longrightarrow> isResolvedStatus (c_status r)"
    by (simp add: db_stale_def db0_def old_complaint_def isResolvedStatus_def string_eval
        cong: let_weak_cong)
  have na: "\<not> ai_flag env0 req_photo"
    by (simp add: ai_flag_def remote_scan_def scanWithGeminiIfAvailable_def env0_def)
  from C6_stale_duplicate [OF v h ex al, of env0] na
  have "\<exists>d reason. d \<in> set (complaints db_stale)
          \<and> sublist (stale_reason d) reason
          \<and> post_complaints env0 req_photo db_stale = (spam_failure reason, db_stale)"
    by blast
  then have "\<exists>reason. sublist (stale_reason old_complaint) reason
         \<and> post_complaints env0 req_photo db_stale = (spam_failure reason, db_stale)"
    by (simp add: db_stale_def db0_def)
  moreover have "map (\<lambda>r. (c_imageHash r, c_status r)) (complaints db_stale)
       = [(Some (sha256_hex ''QUJD''), ''Closed'')]"
    by (simp add: db_stale_def db0_def old_complaint_def)
  moreover have "isResolvedStatus ''Closed''"
    by (simp add: isResolvedStatus_def string_eval cong: let_weak_cong)
  ultimately show ?thesis using v h na by blast
qed

subsection \<open>C7\<close>

text \<open>
  C7.  When the reverse-geocode lookup fails, the handler goes on with the fixed fallback
  location and raises nothing: a submission that passes moderation, on a store that accepts
  its writes, is answered 201 with area Unknown, city Amravati, state Maharashtra, full
  address Unknown, and a ward that is one of the four zone names or the Unassigned
  sentinel, in particular a non-empty string.
\<close>

theorem C7_geocode_fallback:
  assumes "geocode_reply e = None" "valid_request req"
    "\<not> ai_flag e req" "\<not> open_match db req" "\<not> spam_flag e db req" "store_accepts e db"
  shows "(\<forall>lat lon. locate e lat lon = fallback_location)
       \<and> l_ward fallback_location = ''Unknown''
       \<and> (\<exists>row db'. post_complaints e req db = (Created row, db')
              \<and> c_area row = ''Unknown'' \<and> c_city row = ''Amravati''
              \<and> c_state row = ''Maharashtra'' \<and> c_fullAddress row = ''Unknown''
              \<and> c_ward row \<in> set fixed_wards \<and> c_ward row \<noteq> [])"
proof -
  from assms(2) obtain lat lon where ll: "r_latitude req = Some lat" "r_longitude req = Some lon"
    by (auto simp: valid_request_def)
  let ?row = "build_complaint e db req lat lon (moderation_of e db req)"
  have post: "post_complaints e req db = persist e db ?row"
    using assms(3-5) by (simp add: post_valid [OF assms(2) ll] not_open_match)
  from persist_accepts [OF assms(6) build_id] obtain db' where
    p: "persist e db ?row = (Created ?row, db')"
    by blast
  have loc: "locate e x y = fallback_location" for x y
    using assms(1) by (rule locate_failure)
  have fields: "c_area ?row = ''Unknown''" "c_city ?row = ''Amravati''"
    "c_state ?row = ''Maharashtra''" "c_fullAddress ?row = ''Unknown''"
    by (simp_all add: build_location loc fallback_location_def)
  have w: "c_ward ?row \<in> set fixed_wards"
    using ward_of_unknown [of lat lon] by (simp add: build_ward loc fallback_location_def)
  then have "c_ward ?row \<noteq> []"
    using ward_name_nonempty by (auto simp: fixed_wards_def)
  with post p fields w loc show ?thesis
    by (auto simp: fallback_location_def)
qed

text \<open>
  The burst water pipe with the geocoder down: created, in the Pushpak Colony ward.
\<close>

theorem C7_geocode_fallback_witness:
  "geocode_reply env0 = None \<and> valid_request req_ok
   \<and> \<not> ai_flag env0 req_ok \<and> \<not> open_match db0 req_ok \<and> \<not> spam_flag env0 db0 req_ok
   \<and> store_accepts env0 db0
   \<and> (\<exists>row db'. post_complaints env0 req_ok db0 = (Created row, db')
          \<and> c_area row = ''Unknown'' \<and> c_ward row \<in> set fixed_wards)
   \<and> map_option c_ward (created_row (post_complaints env0 req_ok db0))
       = Some (ward_name ''Pushpak Colony Zone'')"
proof -
  have g: "geocode_reply env0 = None" and v: "valid_request req_ok"
    and sa: "store_accepts env0 db0"
    by (simp_all add: env0_def valid_request_def req_ok_def store_accepts_def db0_def)
  have k: "\<not> ai_flag env0 req_ok" "\<not> open_match db0 req_ok" "\<not> spam_flag env0 db0 req_ok"
    by (simp_all add: env0_def req_ok_def db0_def handler_eval signal_eval
        cong: let_weak_cong)
  have w: "map_option c_ward (created_row (post_complaints env0 req_ok db0))
       = Some (ward_name ''Pushpak Colony Zone'')"
    by (simp add: created_row_def env0_def req_ok_def db0_def handler_eval
        cong: let_weak_cong)
  from C7_geocode_fallback [OF g v k sa] g v k sa w show ?thesis
    by blast
qed

subsection \<open>C8\<close>

text \<open>
  C8, as stated: the same coordinates give the same ward and division whatever the
  geocoder returned.  The same request from a place outside the four rectangles, once
  with the geocoder down and once with the geocoder naming the suburb Rajapeth, is routed
  to two different wards and two different divisions.
\<close>

theorem C8_counterexample:
  "map_option c_ward (created_row (post_complaints env0 req_out db0))
     = Some (ward_name ''Unassigned'')
   \<and> map_option c_ward (created_row (post_complaints env_geo req_out db0))
     = Some (ward_name ''Rajapeth'')
   \<and> ward_name ''Unassigned'' \<noteq> ward_name ''Rajapeth''
   \<and> map_option c_division (created_row (post_complaints env0 req_out db0))
     = Some ''Zone-Unmapped''
   \<and> map_option c_division (created_row (post_complaints env_geo req_out db0))
     = Some ''Zone-2''"
proof -
  have a: "map_option (\<lambda>r. (c_ward r, c_division r))
             (created_row (post_complaints env0 req_out db0))
           = Some (ward_name ''Unassigned'', ''Zone-Unmapped'')"
    by (simp add: created_row_def env0_def req_out_def req_ok_def db0_def handler_eval
        cong: let_weak_cong)
  have b: "map_option (\<lambda>r. (c_ward r, c_division r))
             (created_row (post_complaints env_geo req_out db0))
           = Some (ward_name ''Rajapeth'', ''Zone-2'')"
    by (simp add: created_row_def env_geo_def env0_def req_out_def req_ok_def db0_def
        handler_eval cong: let_weak_cong)
  have c: "ward_name ''Unassigned'' \<noteq> ward_name ''Rajapeth''"
    by (simp add: ward_name_def)
  from a b c show ?thesis
    by (auto simp: map_option_case split: option.splits)
qed

text \<open>
  C8, amended.  The ward of a created complaint is a function of its coordinates and of
  the ward hint the geocoder gave, and the division is a function of the ward.  Two
  created complaints with the same coordinates have the same ward and the same division
  when the coordinates lie in one of the four zone rectangles, whatever the geocoder
  returned, and also when the two ward hints agree.
\<close>

theorem C8_ward_routing:
  assumes "post_complaints e1 req1 db1 = (Created row1, db1')"
    "post_complaints e2 req2 db2 = (Created row2, db2')"
    "r_latitude req1 = r_latitude req2" "r_longitude req1 = r_longitude req2"
  shows "c_ward row1 = mapToAmravatiWard (c_latitude row1) (c_longitude row1)
                         (Some (l_ward (locate e1 (c_latitude row1) (c_longitude row1))))
       \<and> c_division row1 = mapWardToDivision (c_ward row1)
       \<and> (in_zone (c_latitude row1) (c_longitude row1)
            \<or> l_ward (locate e1 (c_latitude row1) (c_longitude row1))
                = l_ward (locate e2 (c_latitude row1) (c_longitude row1))
          \<longrightarrow> c_ward row1 = c_ward row2 \<and> c_division row1 = c_division row2)"
proof -
  note w1 = created_ward [OF assms(1)] and w2 = created_ward [OF assms(2)]
  from w1 w2 assms(3,4) have same: "c_latitude row2 = c_latitude row1"
    "c_longitude row2 = c_longitude row1"
    by simp_all
  have "c_ward row1 = c_ward row2"
    if "in_zone (c_latitude row1) (c_longitude row1)
        \<or> l_ward (locate e1 (c_latitude row1) (c_longitude row1))
            = l_ward (locate e2 (c_latitude row1) (c_longitude row1))"
    using that
  proof
    assume "in_zone (c_latitude row1) (c_longitude row1)"
    from ward_in_zone [OF this] w1 w2 same show ?thesis
      by metis
  next
    assume "l_ward (locate e1 (c_latitude row1) (c_longitude row1))
            = l_ward (locate e2 (c_latitude row1) (c_longitude row1))"
    with w1 w2 same show ?thesis by simp
  qed
  with w1 w2 show ?thesis by simp
qed

text \<open>
  Inside the Pushpak Colony rectangle the geocoder's suburb Rajapeth changes nothing.
\<close>

theorem C8_ward_routing_witness:
  "in_zone 20.88 77.74
   \<and> l_ward (locate env0 20.88 77.74) \<noteq> l_ward (locate env_geo 20.88 77.74)
   \<and> (\<exists>row1 db1 row2 db2.
         post_complaints env0 req_ok db0 = (Created row1, db1)
       \<and> post_complaints env_geo req_photo db0 = (Created row2, db2)
       \<and> c_latitude row1 = 20.88 \<and> c_longitude row1 = 77.74
       \<and> c_ward row1 = c_ward row2 \<and> c_division row1 = c_division row2)"
proof -
  have z: "in_zone 20.88 77.74"
    by (simp add: in_zone_def)
  have h: "l_ward (locate env0 20.88 77.74) \<noteq> l_ward (locate env_geo 20.88 77.74)"
    by (simp add: locate_def reverseGeocode_def env_geo_def env0_def fallback_location_def
        js_or_def)
  have "\<exists>row db'. post_complaints env0 req_ok db0 = (Created row, db')"
    by (simp add: env0_def req_ok_def db0_def handler_eval cong: let_weak_cong)
  then obtain row1 db1 where p1: "post_complaints env0 req_ok db0 = (Created row1, db1)"
    by blast
  have "\<exists>row db'. post_complaints env_geo req_photo db0 = (Created row, db')"
    by (simp add: env_geo_def env0_def req_photo_def db0_def handler_eval cong: let_weak_cong)
  then obtain row2 db2 where p2: "post_complaints env_geo req_photo db0 = (Created row2, db2)"
    by blast
  have ll: "r_latitude req_ok = r_latitude req_photo" "r_longitude req_ok = r_longitude req_photo"
    by (simp_all add: req_ok_def req_photo_def)
  have c: "r_latitude req_ok = Some 20.88" "r_longitude req_ok = Some 77.74"
    by (simp_all add: req_ok_def)
  from created_ward [OF p1] c have c1: "c_latitude row1 = 20.88" "c_longitude row1 = 77.74"
    by simp_all
  have z': "in_zone (c_latitude row1) (c_longitude row1)"
    unfolding c1 by (rule z)
  from C8_ward_routing [OF p1 p2 ll] z'
  have "c_ward row1 = c_ward row2 \<and> c_division row1 = c_division row2"
    by blast
  with z h p1 p2 c1 show ?thesis by blast
qed

subsection \<open>C9\<close>

text \<open>
  C9, as stated: every description with a run of seven or more identical characters is
  flagged.  A description with a run of seven zeros, from a user without history, is not
  flagged at all: the engine answers "not spam" with an empty reason.
\<close>

theorem C9_counterexample:
  "sublist (replicate 7 CHR ''0'') ''Garbage pile 0000000 near the park''
   \<and> detectSpamSignals db0 1000000 ''USR-1'' ''Garbage pile 0000000 near the park''
       = (False, [])"
proof -
  have a: "sublist (replicate 7 CHR ''0'') ''Garbage pile 0000000 near the park''"
    by (simp add: numeral_eq_Suc sublist_code)
  have b: "detectSpamSignals db0 1000000 ''USR-1'' ''Garbage pile 0000000 near the park''
       = (False, [])"
    by (simp add: db0_def handler_eval cong: let_weak_cong)
  from a b show ?thesis by simp
qed

text \<open>
  C9, amended.  The rule is about letters: for every description that contains a run of
  seven or more identical ASCII letters, as it stands or after lower-casing (so a run that
  mixes the capital and the small form of one letter counts), the engine flags the
  submission as spam and its reason contains "Description has repeated characters.".
\<close>

theorem C9_repeated_letters:
  assumes "is_letter c"
    "sublist (replicate 7 c) description \<or> sublist (replicate 7 c) (toLowerCase description)"
  shows "fst (detectSpamSignals db now userId description)
       \<and> sublist repeated_reason (snd (detectSpamSignals db now userId description))"
proof -
  from assms obtain l where l: "is_letter l" "sublist (replicate 7 l) (toLowerCase description)"
  proof (cases "sublist (replicate 7 c) description")
    case True
    from sublist_toLowerCase [OF this]
    have "sublist (replicate 7 (lower_char c)) (toLowerCase description)"
      by (simp add: toLowerCase_def)
    with is_letter_lower_char [OF assms(1)] that show ?thesis by blast
  next
    case False
    with assms that show ?thesis by blast
  qed
  have ne: "replicate 7 l \<noteq> []" "\<not> is_space (hd (replicate 7 l))"
    "\<not> is_space (last (replicate 7 l))"
    using is_letter_not_space [OF l(1)] by simp_all
  from sublist_trim [OF l(2) ne]
  have "sublist (replicate 7 l) (toLowerCase (trim description))"
    by (simp add: trim_toLowerCase)
  from letter_run_found [OF l(1) this]
  have m: "repeated_reason \<in> set (spam_reasons db now userId description)"
    by (rule repeated_rule_fires)
  then have "spam_reasons db now userId description \<noteq> []"
    by auto
  moreover from m have "sublist repeated_reason (join '' '' (spam_reasons db now userId description))"
    by (rule sublist_join)
  ultimately show ?thesis
    by (simp add: detectSpamSignals_def Let_def)
qed

text \<open>
  "Roaaaaaaad broken" has seven small a; "Help AaAaAaA now" has a run only after
  lower-casing.
\<close>

theorem C9_repeated_letters_witness:
  "is_letter CHR ''a''
   \<and> sublist (replicate 7 CHR ''a'') ''Roaaaaaaad broken''
   \<and> detectSpamSignals db0 1000000 ''USR-1'' ''Roaaaaaaad broken''
       = (True, repeated_reason)
   \<and> \<not> sublist (replicate 7 CHR ''a'') ''Help AaAaAaA now''
   \<and> sublist (replicate 7 CHR ''a'') (toLowerCase ''Help AaAaAaA now'')
   \<and> fst (detectSpamSignals db0 1000000 ''USR-1'' ''Help AaAaAaA now'')"
proof -
  have l: "is_letter CHR ''a''"
    by (simp add: is_letter_def)
  have a: "sublist (replicate 7 CHR ''a'') ''Roaaaaaaad broken''"
    by (simp add: numeral_eq_Suc sublist_code)
  have b: "\<not> sublist (replicate 7 CHR ''a'') ''Help AaAaAaA now''"
    by (simp add: numeral_eq_Suc sublist_code)
  have c: "sublist (replicate 7 CHR ''a'') (toLowerCase ''Help AaAaAaA now'')"
    by (simp add: numeral_eq_Suc sublist_code string_eval)
  have d: "detectSpamSignals db0 1000000 ''USR-1'' ''Roaaaaaaad broken''
       = (True, repeated_reason)"
    by (simp add: db0_def repeated_reason_def handler_eval cong: let_weak_cong)
  from C9_repeated_letters [OF l disjI1 [OF a], of db0 1000000 "''USR-1''"]
       C9_repeated_letters [OF l disjI2 [OF c], of db0 1000000 "''USR-1''"]
       l a b c d
  show ?thesis by blast
qed

subsection \<open>C10\<close>

text \<open>
  C10, as stated: a confidence that is missing or not a finite number is replaced by 0.6,
  so the remote category becomes final.  The remote classifier names Road and reports the
  confidence \<open>null\<close>, which is not a number; \<open>Number(null)\<close> is 0, a finite number, so the
  pipeline stores the confidence 0 and the citizen's category Garbage stays final.
\<close>

theorem C10_counterexample:
  "GEMINI_API_KEY env_null
   \<and> parseImageDataUrl (r_photoUrl req_photo) \<noteq> None
   \<and> map_option j_categoryConfidence (gemini_reply env_null) = Some JNull
   \<and> map_option j_problemCategory (gemini_reply env_null) = Some ''Road''
   \<and> r_category req_photo = ''Garbage''
   \<and> map_option (\<lambda>r. (c_category r, c_classificationConfidence r))
         (created_row (post_complaints env_null req_photo db0))
       = Some (''Garbage'', 0)"
proof -
  have a: "GEMINI_API_KEY env_null"
    "map_option j_categoryConfidence (gemini_reply env_null) = Some JNull"
    "map_option j_problemCategory (gemini_reply env_null) = Some ''Road''"
    "r_category req_photo = ''Garbage''"
    by (simp_all add: env_null_def env0_def reply_with_def req_photo_def)
  have p: "parseImageDataUrl (r_photoUrl req_photo) \<noteq> None"
    by (simp add: req_photo_def handler_eval cong: let_weak_cong)
  have c: "map_option (\<lambda>r. (c_category r, c_classificationConfidence r))
         (created_row (post_complaints env_null req_photo db0))
       = Some (''Garbage'', 0)"
    by (simp add: created_row_def env_null_def env0_def reply_with_def req_photo_def db0_def
        handler_eval cong: let_weak_cong)
  from a p c show ?thesis by simp
qed

text \<open>
  C10, amended.  When the remote classifier answers and \<open>Number(...)\<close> of its reported
  confidence is not finite (the field is missing, or its value coerces to NaN or to an
  infinity, as a word, an object or a number beyond the doubles does), the pipeline takes
  the confidence to be exactly 0.6; as 0.6 meets the threshold, the remote classifier's
  category, not the citizen's, is the final category of the accepted complaint.  When the
  coerced value is finite, as it also is for \<open>null\<close>, the empty string, \<open>false\<close> and the
  empty array, which coerce to 0, the stored confidence is that value clamped into the
  interval from 0 to 1, and the remote category is final exactly when the value is at least
  0.6.
\<close>

theorem C10_degraded_confidence:
  assumes "GEMINI_API_KEY e" "parseImageDataUrl (r_photoUrl req) \<noteq> None"
    "gemini_reply e = Some j" "post_complaints e req db = (Created row, db')"
  shows "(\<not> isFinite (js_Number (j_categoryConfidence j)) \<longrightarrow>
            classification e req = (normalizeCategory (j_problemCategory j), 0.6)
            \<and> c_classificationConfidence row = 0.6
            \<and> c_category row = normalizeCategory (j_problemCategory j))
       \<and> (\<forall>c. js_Number (j_categoryConfidence j) = Finite c \<longrightarrow>
            c_classificationConfidence row = max 0 (min 1 c)
            \<and> 0 \<le> c_classificationConfidence row \<and> c_classificationConfidence row \<le> 1
            \<and> c_category row =
                 (if 0.6 \<le> c then normalizeCategory (j_problemCategory j)
                  else normalizeCategory (r_category req)))"
proof -
  from remote_scan_Some [OF assms(1-3)] obtain g where
    g: "remote_scan e req = Some g"
       "g_problemCategory g = normalizeCategory (j_problemCategory j)"
       "g_categoryConfidence g = clamp_confidence (js_Number (j_categoryConfidence j))"
    by blast
  then have cl: "classification e req =
      (normalizeCategory (j_problemCategory j),
       clamp_confidence (js_Number (j_categoryConfidence j)))"
    by (simp add: classification_def)
  note cr = created_classification [OF assms(4)]
  have nf: "classification e req = (normalizeCategory (j_problemCategory j), 0.6)
            \<and> c_classificationConfidence row = 0.6
            \<and> c_category row = normalizeCategory (j_problemCategory j)"
    if "\<not> isFinite (js_Number (j_categoryConfidence j))"
    using cr clamp_not_finite [OF that] by (simp add: cl)
  have fin: "c_classificationConfidence row = max 0 (min 1 c)
            \<and> 0 \<le> c_classificationConfidence row \<and> c_classificationConfidence row \<le> 1
            \<and> c_category row =
                 (if 0.6 \<le> c then normalizeCategory (j_problemCategory j)
                  else normalizeCategory (r_category req))"
    if "js_Number (j_categoryConfidence j) = Finite c" for c
  proof -
    have v: "snd (classification e req) = max 0 (min 1 c)"
      by (simp add: cl that clamp_finite)
    have t: "(0.6 \<le> max 0 (min 1 c)) = (0.6 \<le> c)"
      by (auto simp: max_def min_def)
    from cr show ?thesis
      unfolding v t by (simp add: cl)
  qed
  from nf fin show ?thesis by blast
qed

text \<open>
  The citizen files under Garbage and the remote classifier says Road.  Without a
  confidence, and with the word "high" for one, the complaint is created under Road with
  confidence 0.6; with the string "1.5" under Road with confidence 1; with the number 0.4
  under Garbage with confidence 0.4.
\<close>

theorem C10_degraded_confidence_witness:
  "GEMINI_API_KEY env_gem \<and> parseImageDataUrl (r_photoUrl req_photo) \<noteq> None
   \<and> map_option j_categoryConfidence (gemini_reply env_gem) = Some JUndefined
   \<and> \<not> isFinite (js_Number JUndefined)
   \<and> \<not> isFinite (js_Number (JStr ''high''))
   \<and> \<not> isFinite (js_Number (JStr ''1e999''))
   \<and> js_Number (JStr ''1.5'') = Finite 1.5
   \<and> js_Number (JNum 0.4) = Finite 0.4
   \<and> normalizeCategory (r_category req_photo) = ''Garbage''
   \<and> (\<exists>row db'. post_complaints env_gem req_photo db0 = (Created row, db')
         \<and> c_category row = ''Road'' \<and> c_classificationConfidence row = 0.6)
   \<and> (\<exists>row db'. post_complaints env_word req_photo db0 = (Created row, db')
         \<and> c_category row = ''Road'' \<and> c_classificationConfidence row = 0.6)
   \<and> (\<exists>row db'. post_complaints env_str req_photo db0 = (Created row, db')
         \<and> c_category row = ''Road'' \<and> c_classificationConfidence row = 1)
   \<and> (\<exists>row db'. post_complaints env_low req_photo db0 = (Created row, db')
         \<and> c_category row = ''Garbage'' \<and> c_classificationConfidence row = 0.4)"
proof -
  have k: "GEMINI_API_KEY env_gem" "GEMINI_API_KEY env_word" "GEMINI_API_KEY env_str"
    "GEMINI_API_KEY env_low"
    by (simp_all add: env_gem_def env_word_def env_str_def env_low_def env0_def)
  have r: "gemini_reply env_gem = Some (reply_with JUndefined)"
    "gemini_reply env_word = Some (reply_with (JStr ''high''))"
    "gemini_reply env_str = Some (reply_with (JStr ''1.5''))"
    "gemini_reply env_low = Some ((reply_with (JNum 0.4))\<lparr>j_problemCategory := ''Water''\<rparr>)"
    by (simp_all add: env_gem_def env_word_def env_str_def env_low_def env0_def reply_with_def)
  have p: "parseImageDataUrl (r_photoUrl req_photo) \<noteq> None"
    by (simp add: req_photo_def handler_eval cong: let_weak_cong)
  have f: "\<not> isFinite (js_Number JUndefined)" "\<not> isFinite (js_Number (JStr ''high''))"
    "js_Number (JStr ''1.5'') = Finite 1.5" "js_Number (JNum 0.4) = Finite 0.4"
    by (simp_all add: handler_eval cong: let_weak_cong)
  have n: "normalizeCategory (r_category req_photo) = ''Garbage''"
    "normalizeCategory ''Road'' = ''Road''"
    by (simp_all add: req_photo_def normalizeCategory_def string_eval cong: let_weak_cong)
  have "\<exists>row db'. post_complaints env_gem req_photo db0 = (Created row, db')"
    by (simp add: env_gem_def env0_def req_photo_def db0_def handler_eval
        cong: let_weak_cong)
  then obtain row1 d1 where c1: "post_complaints env_gem req_photo db0 = (Created row1, d1)"
    by blast
  have "\<exists>row db'. post_complaints env_word req_photo db0 = (Created row, db')"
    by (simp add: env_word_def reply_with_def env0_def req_photo_def db0_def handler_eval
        cong: let_weak_cong)
  then obtain row2 d2 where c2: "post_complaints env_word req_photo db0 = (Created row2, d2)"
    by blast
  have "\<exists>row db'. post_complaints env_str req_photo db0 = (Created row, db')"
    by (simp add: env_str_def reply_with_def env0_def req_photo_def db0_def handler_eval
        cong: let_weak_cong)
  then obtain row3 d3 where c3: "post_complaints env_str req_photo db0 = (Created row3, d3)"
    by blast
  have "\<exists>row db'. post_complaints env_low req_photo db0 = (Created row, db')"
    by (simp add: env_low_def env0_def req_photo_def db0_def handler_eval
        cong: let_weak_cong)
  then obtain row4 d4 where c4: "post_complaints env_low req_photo db0 = (Created row4, d4)"
    by blast
  note t1 = C10_degraded_confidence [OF k(1) p r(1) c1, THEN conjunct1, rule_format]
    and t2 = C10_degraded_confidence [OF k(2) p r(2) c2, THEN conjunct1, rule_format]
    and t3 = C10_degraded_confidence [OF k(3) p r(3) c3, THEN conjunct2, rule_format, of "1.5"]
    and t4 = C10_degraded_confidence [OF k(4) p r(4) c4, THEN conjunct2, rule_format, of "0.4"]
  have e1: "\<not> isFinite (js_Number (j_categoryConfidence (reply_with JUndefined)))"
    by (simp add: reply_with_def)
  have e2: "\<not> isFinite (js_Number (j_categoryConfidence (reply_with (JStr ''high''))))"
    using f(2) by (simp add: reply_with_def)
  have e3: "js_Number (j_categoryConfidence (reply_with (JStr ''1.5''))) = Finite 1.5"
    using f(3) by (simp add: reply_with_def)
  have e4: "js_Number (j_categoryConfidence ((reply_with (JNum 0.4))\<lparr>j_problemCategory := ''Water''\<rparr>))
              = Finite 0.4"
    using f(4) by (simp add: reply_with_def)
  from t1 [OF e1] n(2)
  have w1: "c_category row1 = ''Road'' \<and> c_classificationConfidence row1 = 0.6"
    by (simp add: reply_with_def)
  from t2 [OF e2] n(2)
  have w2: "c_category row2 = ''Road'' \<and> c_classificationConfidence row2 = 0.6"
    by (simp add: reply_with_def)
  from t3 [OF e3] n(2)
  have w3: "c_category row3 = ''Road'' \<and> c_classificationConfidence row3 = 1"
    by (simp add: reply_with_def)
  from t4 [OF e4] n(1)
  have w4: "c_category row4 = ''Garbage'' \<and> c_classificationConfidence row4 = 0.4"
    by simp
  have u: "map_option j_categoryConfidence (gemini_reply env_gem) = Some JUndefined"
    by (simp add: r reply_with_def)
  have o: "\<not> isFinite (js_Number (JStr ''1e999''))"
    using js_Number_examples(14) by simp
  from k(1) p u o f n(1) c1 c2 c3 c4 w1 w2 w3 w4 show ?thesis
    by blast
qed

end
